theory Spec2Isabelle
  imports Main "HOL-Library.AList"
begin

section \<open>Python values\<close>

text \<open>
  A Python \<open>str\<close> is a sequence of Unicode code points, and \<open>len\<close> counts code points;
  a \<open>bytes\<close> value is a sequence of octets. Both are lists of numbers here. String
  literals of the source are written in ASCII through \<open>ascii\<close>.
\<close>

type_synonym pystr = "nat list"
type_synonym bytes = "nat list"

definition ascii :: "string \<Rightarrow> pystr" where
  "ascii s = map of_char s"

text \<open>
  The values that \<open>json.load\<close> produces and \<open>json.dump\<close> accepts: lists are \<open>JArr\<close>,
  dicts are \<open>JObj\<close> with their items in insertion order. Numbers are integers; no
  operation of the program computes with a number.
\<close>

datatype json =
    JNull
  | JBool bool
  | JInt int
  | JStr pystr
  | JArr "json list"
  | JObj "(pystr \<times> json) list"

text \<open>
  An exception is its class together with the text \<open>str(e)\<close>. The classes are the ones
  the handlers of the source tell apart (\<open>ReadTimeout\<close>, \<open>ConnectionError\<close> with its
  subclass \<open>ConnectTimeout\<close>, \<open>JSONDecodeError\<close>) and the ones the operations on
  values and the opening of a file raise; all of them derive from \<open>Exception\<close>.
\<close>

datatype exc_class =
    ReadTimeout
  | ConnectTimeout
  | ConnectionError
  | JSONDecodeError
  | UnicodeDecodeError
  | AttributeError
  | TypeError
  | KeyError
  | FileNotFoundError
  | IsADirectoryError
  | OtherException

datatype exn = Exn exc_class pystr

fun exc_class_of :: "exn \<Rightarrow> exc_class" where
  "exc_class_of (Exn c m) = c"

text \<open>\<open>sub in s\<close> on two strings: \<open>sub\<close> occurs in \<open>s\<close> as a contiguous run.\<close>

fun str_contains :: "pystr \<Rightarrow> pystr \<Rightarrow> bool" where
  "str_contains sub [] = (sub = [])"
| "str_contains sub (c # cs) = (take (length sub) (c # cs) = sub \<or> str_contains sub cs)"

text \<open>
  \<open>k in v\<close> for a string \<open>k\<close>: key membership on a dict, element membership on a list,
  substring on a string, \<open>TypeError\<close> on a value that is not a container.
\<close>

fun py_in :: "pystr \<Rightarrow> json \<Rightarrow> exn + bool" where
  "py_in k (JObj kvs) = Inr (map_of kvs k \<noteq> None)"
| "py_in k (JArr xs) = Inr (JStr k \<in> set xs)"
| "py_in k (JStr s) = Inr (str_contains k s)"
| "py_in k v = Inl (Exn TypeError (ascii ''argument is not iterable''))"

text \<open>\<open>v[k]\<close> for a string \<open>k\<close>: only a dict can be indexed by a string.\<close>

fun py_getitem :: "json \<Rightarrow> pystr \<Rightarrow> exn + json" where
  "py_getitem (JObj kvs) k =
     (case map_of kvs k of None \<Rightarrow> Inl (Exn KeyError k) | Some v \<Rightarrow> Inr v)"
| "py_getitem v k = Inl (Exn TypeError (ascii ''indices must be integers''))"

text \<open>\<open>v[k] = x\<close> for a string \<open>k\<close>: a dict replaces the value of \<open>k\<close> in place or adds the
  item at the end.\<close>

fun py_setitem :: "json \<Rightarrow> pystr \<Rightarrow> json \<Rightarrow> exn + json" where
  "py_setitem (JObj kvs) k x = Inr (JObj (AList.update k x kvs))"
| "py_setitem v k x = Inl (Exn TypeError (ascii ''object does not support item assignment''))"

text \<open>\<open>v.get(k, d)\<close>: a method of dicts only.\<close>

fun py_get :: "json \<Rightarrow> pystr \<Rightarrow> json \<Rightarrow> exn + json" where
  "py_get (JObj kvs) k d = Inr (case map_of kvs k of None \<Rightarrow> d | Some v \<Rightarrow> v)"
| "py_get v k d = Inl (Exn AttributeError (ascii ''object has no attribute get''))"

text \<open>\<open>v.append(x)\<close>: a method of lists only.\<close>

fun py_append :: "json \<Rightarrow> json \<Rightarrow> exn + json" where
  "py_append (JArr xs) x = Inr (JArr (xs @ [x]))"
| "py_append v x = Inl (Exn AttributeError (ascii ''object has no attribute append''))"

text \<open>\<open>str(n)\<close> for a non-negative integer: its decimal digits.\<close>

fun py_str_nat :: "nat \<Rightarrow> pystr" where
  "py_str_nat n = (if n < 10 then [48 + n] else py_str_nat (n div 10) @ [48 + n mod 10])"

declare py_str_nat.simps [simp del]

section \<open>The file system and the JSON library\<close>

text \<open>
  The program reads and writes whole files under paths it derives from the identity.
  A file system is the content of each file, the directories that \<open>os.makedirs\<close> was
  asked for, and the journal of the paths opened for writing, oldest first. Paths are
  keys. \<open>os.path.exists\<close> is true of a file and of a directory; \<open>open\<close> for reading
  gives the content of a file and raises on a directory or on nothing. The operating
  system never refuses \<open>os.makedirs\<close> or a write in this model.

  \<open>json.load\<close> and \<open>json.dump\<close> belong to the Python library. They are parameters of
  every function that uses them: \<open>loads\<close> parses the bytes of a document and returns its
  value or raises, \<open>dumps\<close> renders a value (the source always renders with \<open>indent=2\<close>).
\<close>

record filesystem =
  files :: "pystr \<rightharpoonup> bytes"
  dirs :: "pystr set"
  journal :: "pystr list"

definition makedirs :: "pystr \<Rightarrow> filesystem \<Rightarrow> filesystem" where
  "makedirs p fs = fs\<lparr>dirs := insert p (dirs fs)\<rparr>"

definition write_file :: "pystr \<Rightarrow> bytes \<Rightarrow> filesystem \<Rightarrow> filesystem" where
  "write_file p c fs = fs\<lparr>files := (files fs)(p \<mapsto> c), journal := journal fs @ [p]\<rparr>"

definition path_exists :: "filesystem \<Rightarrow> pystr \<Rightarrow> bool" where
  "path_exists fs p \<longleftrightarrow> files fs p \<noteq> None \<or> p \<in> dirs fs"

definition open_read :: "filesystem \<Rightarrow> pystr \<Rightarrow> exn + bytes" where
  "open_read fs p =
     (case files fs p of
        Some c \<Rightarrow> Inr c
      | None \<Rightarrow>
          if p \<in> dirs fs then Inl (Exn IsADirectoryError p) else Inl (Exn FileNotFoundError p))"

definition USER_DB_FILE :: pystr where
  "USER_DB_FILE = ascii ''users.json''"

definition HISTORY_DIR :: pystr where
  "HISTORY_DIR = ascii ''history''"

section \<open>User and history management\<close>

definition load_users :: "(bytes \<Rightarrow> exn + json) \<Rightarrow> filesystem \<Rightarrow> exn + json" where
  "load_users loads fs =
     (if \<not> path_exists fs USER_DB_FILE then Inr (JObj [])
      else
        (case open_read fs USER_DB_FILE of
           Inl e \<Rightarrow> Inl e
         | Inr c \<Rightarrow> loads c))"

definition save_users :: "(json \<Rightarrow> bytes) \<Rightarrow> json \<Rightarrow> filesystem \<Rightarrow> filesystem" where
  "save_users dumps users fs = write_file USER_DB_FILE (dumps users) fs"

definition login :: "(bytes \<Rightarrow> exn + json) \<Rightarrow> filesystem \<Rightarrow> pystr \<Rightarrow> pystr \<Rightarrow> exn + bool" where
  "login loads fs email password =
     (case load_users loads fs of
        Inl e \<Rightarrow> Inl e
      | Inr users \<Rightarrow>
          (case py_in email users of
             Inl e \<Rightarrow> Inl e
           | Inr False \<Rightarrow> Inr False
           | Inr True \<Rightarrow>
               (case py_getitem users email of
                  Inl e \<Rightarrow> Inl e
                | Inr v \<Rightarrow> Inr (v = JStr password))))"

definition history_dir :: "pystr \<Rightarrow> pystr" where
  "history_dir email = HISTORY_DIR @ ascii ''/'' @ email"

definition history_path :: "pystr \<Rightarrow> pystr" where
  "history_path email = HISTORY_DIR @ ascii ''/'' @ email @ ascii ''/chat.json''"

text \<open>
  \<open>signup\<close> returns its boolean and the file system it leaves. The message it shows for
  an empty field is output only. Every exception it can raise is raised before the
  first write.
\<close>

definition signup ::
  "(bytes \<Rightarrow> exn + json) \<Rightarrow> (json \<Rightarrow> bytes) \<Rightarrow> filesystem \<Rightarrow> pystr \<Rightarrow> pystr
     \<Rightarrow> exn + (bool \<times> filesystem)" where
  "signup loads dumps fs email password =
     (if email = [] \<or> password = [] then Inr (False, fs)
      else
        (case load_users loads fs of
           Inl e \<Rightarrow> Inl e
         | Inr users \<Rightarrow>
             (case py_in email users of
                Inl e \<Rightarrow> Inl e
              | Inr True \<Rightarrow> Inr (False, fs)
              | Inr False \<Rightarrow>
                  (case py_setitem users email (JStr password) of
                     Inl e \<Rightarrow> Inl e
                   | Inr users' \<Rightarrow>
                       Inr (True, makedirs (history_dir email) (save_users dumps users' fs))))))"

definition load_history :: "(bytes \<Rightarrow> exn + json) \<Rightarrow> filesystem \<Rightarrow> pystr \<Rightarrow> exn + json" where
  "load_history loads fs email =
     (if path_exists fs (history_path email) then
        (case (case open_read fs (history_path email) of
                 Inl e \<Rightarrow> Inl e
               | Inr c \<Rightarrow> loads c) of
           Inr v \<Rightarrow> Inr v
         | Inl e \<Rightarrow> if exc_class_of e = JSONDecodeError then Inr (JArr []) else Inl e)
      else Inr (JArr []))"

definition save_history :: "(json \<Rightarrow> bytes) \<Rightarrow> pystr \<Rightarrow> json \<Rightarrow> filesystem \<Rightarrow> filesystem" where
  "save_history dumps email messages fs =
     write_file (history_path email) (dumps messages) (makedirs (history_dir email) fs)"

section \<open>The inference client\<close>

definition OLLAMA_URL :: pystr where
  "OLLAMA_URL = ascii ''http://localhost:11434/api/generate''"

definition OLLAMA_MODEL :: pystr where
  "OLLAMA_MODEL = ascii ''granite3.3:2b''"

text \<open>The failure marker is the cross mark, code point U+274C.\<close>

definition CROSS_MARK :: pystr where
  "CROSS_MARK = [10060]"

text \<open>
  The request that \<open>requests.post\<close> is given: the address, the three members of the
  payload and the wait bound.
\<close>

record request =
  url :: pystr
  model :: pystr
  prompt :: pystr
  stream :: bool
  timeout :: nat

text \<open>
  What the endpoint does with a request is a parameter, \<open>post\<close>. Either the call raises
  before there is a response, or there is a response: its status, its body as text, the
  lines that \<open>iter_lines\<close> delivers in order, and the exception that ends the iteration
  when the connection breaks or goes silent before the stream is complete.
\<close>

record response =
  status_code :: nat
  response_text :: pystr
  iter_lines :: "bytes list"
  iter_error :: "exn option"

datatype post_result = Raises exn | Responds response

definition build_prompt :: "pystr \<Rightarrow> pystr \<Rightarrow> pystr" where
  "build_prompt question context_text =
     ascii ''You are a helpful assistant. Answer the question using ONLY the context provided. If the answer is not in the context, say ''
     @ [39] @ ascii ''The answer is not available in the provided document.'' @ [39]
     @ [10, 10] @ ascii ''Context:'' @ [10] @ context_text
     @ [10, 10] @ ascii ''Question:'' @ [10] @ question
     @ [10, 10] @ ascii ''Answer:''"

definition build_request :: "pystr \<Rightarrow> pystr \<Rightarrow> request" where
  "build_request question context_text =
     \<lparr>url = OLLAMA_URL, model = OLLAMA_MODEL, prompt = build_prompt question context_text,
      stream = True, timeout = 300\<rparr>"

text \<open>
  The loop over the lines of a successful response. The result is the fragments yielded
  so far and the exception that left the loop, if one did. \<open>loads\<close> stands for
  \<open>json.loads(line.decode('utf-8'))\<close>.
\<close>

fun stream_lines :: "(bytes \<Rightarrow> exn + json) \<Rightarrow> bytes list \<Rightarrow> json list \<times> exn option" where
  "stream_lines loads [] = ([], None)"
| "stream_lines loads (line # rest) =
     (if line = [] then stream_lines loads rest
      else
        (case loads line of
           Inl e \<Rightarrow> ([], Some e)
         | Inr chunk \<Rightarrow>
             (case py_get chunk (ascii ''response'') (JStr []) of
                Inl e \<Rightarrow> ([], Some e)
              | Inr fragment \<Rightarrow>
                  (case stream_lines loads rest of (ys, r) \<Rightarrow> (fragment # ys, r)))))"

text \<open>The body of the \<open>try\<close> statement: what it yields and the exception that leaves it.\<close>

definition try_body ::
  "(request \<Rightarrow> post_result) \<Rightarrow> (bytes \<Rightarrow> exn + json) \<Rightarrow> pystr \<Rightarrow> pystr
     \<Rightarrow> json list \<times> exn option" where
  "try_body post loads question context_text =
     (case post (build_request question context_text) of
        Raises e \<Rightarrow> ([], Some e)
      | Responds r \<Rightarrow>
          if status_code r = 200 then
            (case stream_lines loads (iter_lines r) of
               (ys, Some e) \<Rightarrow> (ys, Some e)
             | (ys, None) \<Rightarrow> (ys, iter_error r))
          else
            ([JStr (CROSS_MARK @ ascii '' Ollama Error '' @ py_str_nat (status_code r)
                    @ ascii '': '' @ response_text r)], None))"

text \<open>
  The three handlers, in the order of the source. \<open>ConnectTimeout\<close> is a
  \<open>ConnectionError\<close>; every other class reaches the last handler.
\<close>

fun except_handlers :: "exn \<Rightarrow> pystr" where
  "except_handlers (Exn ReadTimeout m) =
     CROSS_MARK @ ascii '' Ollama connection timed out. The model may be taking too long to load. Please try again.''"
| "except_handlers (Exn ConnectTimeout m) =
     CROSS_MARK @ ascii '' Failed to connect to Ollama. Is it running? Error: '' @ m"
| "except_handlers (Exn ConnectionError m) =
     CROSS_MARK @ ascii '' Failed to connect to Ollama. Is it running? Error: '' @ m"
| "except_handlers (Exn c m) =
     CROSS_MARK @ ascii '' An unexpected error occurred: '' @ m"

text \<open>The generator, as the list of the fragments it yields until it is exhausted.\<close>

definition ask_ollama_stream ::
  "(request \<Rightarrow> post_result) \<Rightarrow> (bytes \<Rightarrow> exn + json) \<Rightarrow> pystr \<Rightarrow> pystr \<Rightarrow> json list" where
  "ask_ollama_stream post loads question context_text =
     (case try_body post loads question context_text of
        (ys, None) \<Rightarrow> ys
      | (ys, Some e) \<Rightarrow> ys @ [JStr (except_handlers e)])"

section \<open>The session\<close>

text \<open>
  \<open>st.write_stream\<close> belongs to Streamlit. It drains the generator and returns the full
  response: the concatenated text when only text was streamed (the empty string when
  nothing was), and otherwise the list of what was written, each run of text fragments
  as one string.
\<close>

fun flush_stream_response :: "pystr \<Rightarrow> json list \<Rightarrow> json list" where
  "flush_stream_response streamed written =
     (if streamed = [] then written else written @ [JStr streamed])"

fun write_stream_loop :: "json list \<Rightarrow> pystr \<Rightarrow> json list \<Rightarrow> json list" where
  "write_stream_loop [] streamed written = flush_stream_response streamed written"
| "write_stream_loop (JStr s # chunks) streamed written =
     write_stream_loop chunks (streamed @ s) written"
| "write_stream_loop (chunk # chunks) streamed written =
     write_stream_loop chunks [] (flush_stream_response streamed written @ [chunk])"

definition write_stream :: "json list \<Rightarrow> json" where
  "write_stream chunks =
     (case write_stream_loop chunks [] [] of
        [] \<Rightarrow> JStr []
      | [JStr s] \<Rightarrow> JStr s
      | written \<Rightarrow> JArr written)"

text \<open>The session state of the source, with its four keys.\<close>

record session =
  authenticated :: bool
  current_user :: pystr
  messages :: json
  session_context :: pystr

definition initial_session :: session where
  "initial_session =
     \<lparr>authenticated = False, current_user = [], messages = JArr [], session_context = []\<rparr>"

definition message :: "string \<Rightarrow> json \<Rightarrow> json" where
  "message role content = JObj [(ascii ''role'', JStr (ascii role)), (ascii ''content'', content)]"

text \<open>
  The handler of the chat input, for a submitted question. It exists only in an
  authenticated session. The only exception it can raise is raised by the first
  \<open>append\<close>, before anything has changed.
\<close>

definition chat_input_handler ::
  "(request \<Rightarrow> post_result) \<Rightarrow> (bytes \<Rightarrow> exn + json) \<Rightarrow> (json \<Rightarrow> bytes) \<Rightarrow> pystr
     \<Rightarrow> session \<times> filesystem \<Rightarrow> exn + (session \<times> filesystem)" where
  "chat_input_handler post loads dumps question w =
     (case w of (s, fs) \<Rightarrow>
        if \<not> authenticated s \<or> question = [] then Inr (s, fs)
        else if session_context s = [] then Inr (s, fs)
        else
          (case py_append (messages s) (message ''user'' (JStr question)) of
             Inl e \<Rightarrow> Inl e
           | Inr asked \<Rightarrow>
               (let full_response =
                      write_stream (ask_ollama_stream post loads question (session_context s))
                in
                  (case py_in CROSS_MARK full_response of
                     Inl e \<Rightarrow> Inl e
                   | Inr True \<Rightarrow> Inr (s\<lparr>messages := asked\<rparr>, fs)
                   | Inr False \<Rightarrow>
                       (case py_append asked (message ''assistant'' full_response) of
                          Inl e \<Rightarrow> Inl e
                        | Inr answered \<Rightarrow>
                            Inr (s\<lparr>messages := answered\<rparr>,
                                 save_history dumps (current_user s) answered fs))))))"

text \<open>The logout button: save, delete every key; the rerun starts from the initial state.\<close>

definition logout_handler :: "(json \<Rightarrow> bytes) \<Rightarrow> session \<times> filesystem \<Rightarrow> session \<times> filesystem" where
  "logout_handler dumps w =
     (case w of (s, fs) \<Rightarrow>
        if \<not> authenticated s then (s, fs)
        else (initial_session, save_history dumps (current_user s) (messages s) fs))"

text \<open>The clear button: empty the transcript, then save it.\<close>

definition clear_handler :: "(json \<Rightarrow> bytes) \<Rightarrow> session \<times> filesystem \<Rightarrow> session \<times> filesystem" where
  "clear_handler dumps w =
     (case w of (s, fs) \<Rightarrow>
        if \<not> authenticated s then (s, fs)
        else (s\<lparr>messages := JArr []\<rparr>, save_history dumps (current_user s) (JArr []) fs))"

section \<open>The report renderer: line wrapping\<close>

text \<open>
  \<open>str.isspace\<close> on one code point: the characters that \<open>lstrip()\<close> removes.
\<close>

definition py_isspace :: "nat \<Rightarrow> bool" where
  "py_isspace c \<longleftrightarrow>
     (9 \<le> c \<and> c \<le> 13) \<or> (28 \<le> c \<and> c \<le> 32) \<or> c = 133 \<or> c = 160 \<or> c = 5760 \<or>
     (8192 \<le> c \<and> c \<le> 8202) \<or> c = 8232 \<or> c = 8233 \<or> c = 8239 \<or> c = 8287 \<or> c = 12288"

definition lstrip :: "pystr \<Rightarrow> pystr" where
  "lstrip s = dropWhile py_isspace s"

text \<open>The highest index at which a character occurs in a string.\<close>

fun last_index :: "nat \<Rightarrow> pystr \<Rightarrow> nat option" where
  "last_index c [] = None"
| "last_index c (x # xs) =
     (case last_index c xs of
        Some i \<Rightarrow> Some (Suc i)
      | None \<Rightarrow> if x = c then Some 0 else None)"

text \<open>\<open>s.rfind(c, start, end)\<close> for a single character \<open>c\<close>: the highest index in the
  slice, or \<open>-1\<close>.\<close>

definition py_rfind :: "pystr \<Rightarrow> nat \<Rightarrow> nat \<Rightarrow> nat \<Rightarrow> int" where
  "py_rfind s c start end =
     (case last_index c (drop start (take end s)) of
        None \<Rightarrow> - 1
      | Some i \<Rightarrow> int (start + i))"

text \<open>The position at which the loop splits a line that is too long.\<close>

definition split_pos :: "pystr \<Rightarrow> nat" where
  "split_pos line = (let p = py_rfind line 32 0 90 in if p = - 1 then 90 else nat p)"

text \<open>
  The \<open>while\<close> loop of \<open>download_pdf_report\<close> for one line, as the list of the strings it
  passes to \<open>textLine\<close>, the call after the loop included.
\<close>

function wrap_line :: "pystr \<Rightarrow> pystr list" where
  "wrap_line line =
     (if 90 < length line
      then take (split_pos line) line # wrap_line (lstrip (drop (split_pos line) line))
      else [line])"
  by pat_completeness auto
termination
proof (relation "measure length")
  show "wf (measure length)" by simp
next
  fix line :: pystr
  assume long: "90 < length line"
  have found: "last_index c xs = Some i \<Longrightarrow> i < length xs \<and> xs ! i = c" for c xs i
    by (induction xs arbitrary: i) (auto split: option.splits if_splits)
  have shorter: "length (lstrip (drop (split_pos line) line)) < length line"
  proof (cases "last_index 32 (take 90 line)")
    case None
    then have "split_pos line = 90" by (simp add: split_pos_def py_rfind_def)
    moreover have "length (lstrip (drop 90 line)) \<le> length (drop 90 line)"
      unfolding lstrip_def by (rule length_dropWhile_le)
    ultimately show ?thesis using long by simp
  next
    case (Some i)
    then have sp: "split_pos line = i" by (simp add: split_pos_def py_rfind_def)
    from found [OF Some] long have i: "i < 90" "line ! i = 32" by auto
    with long have "drop i line = 32 # drop (Suc i) line"
      using Cons_nth_drop_Suc [of i line] by simp
    then have "lstrip (drop i line) = lstrip (drop (Suc i) line)"
      by (simp add: lstrip_def py_isspace_def)
    moreover have "length (lstrip (drop (Suc i) line)) \<le> length (drop (Suc i) line)"
      unfolding lstrip_def by (rule length_dropWhile_le)
    ultimately show ?thesis using sp long by simp
  qed
  then show "(lstrip (drop (split_pos line) line), line) \<in> measure length" by simp
qed

declare wrap_line.simps [simp del]

text \<open>
  Rejoining wrapped lines: \<open>weave ls gaps\<close> puts the lines back together with the string
  \<open>gaps ! i\<close> between line \<open>i\<close> and the next one.
\<close>

fun weave :: "pystr list \<Rightarrow> pystr list \<Rightarrow> pystr" where
  "weave [] gaps = []"
| "weave [l] gaps = l"
| "weave (l # ls) [] = l @ weave ls []"
| "weave (l # ls) (g # gaps) = l @ g @ weave ls gaps"

section \<open>A stub library for concrete runs\<close>

text \<open>
  To run the functions on concrete inputs, a JSON library that knows finitely many
  documents: \<open>stub_loads\<close> parses the documents of its table and raises
  \<open>JSONDecodeError\<close> on every other input, \<open>stub_dumps\<close> renders the values of its table.
\<close>

definition stub_loads :: "(bytes \<times> json) list \<Rightarrow> bytes \<Rightarrow> exn + json" where
  "stub_loads table b =
     (case map_of table b of
        Some v \<Rightarrow> Inr v
      | None \<Rightarrow> Inl (Exn JSONDecodeError (ascii ''Expecting value'')))"

definition stub_dumps :: "(json \<times> bytes) list \<Rightarrow> json \<Rightarrow> bytes" where
  "stub_dumps table v = (case map_of table v of Some b \<Rightarrow> b | None \<Rightarrow> [])"

text \<open>The file system before anything was written.\<close>

definition empty_fs :: filesystem where
  "empty_fs = \<lparr>files = Map.empty, dirs = {}, journal = []\<rparr>"

text \<open>
  A session to run the handlers in, an endpoint that cannot be reached, and an endpoint
  that streams an answer in two records with a blank line between them.
\<close>

definition alice_session :: session where
  "alice_session =
     \<lparr>authenticated = True, current_user = ascii ''a@x.com'', messages = JArr [],
      session_context = ascii ''X is a letter.''\<rparr>"

definition endpoint_down :: "request \<Rightarrow> post_result" where
  "endpoint_down req = Raises (Exn ConnectionError (ascii ''connection refused''))"

definition endpoint_answers :: "request \<Rightarrow> post_result" where
  "endpoint_answers req =
     Responds \<lparr>status_code = 200, response_text = [],
               iter_lines = [ascii ''r1'', [], ascii ''r2''], iter_error = None\<rparr>"

definition stub_records :: "(bytes \<times> json) list" where
  "stub_records =
     [(ascii ''r1'', JObj [(ascii ''response'', JStr (ascii ''The ''))]),
      (ascii ''r2'', JObj [(ascii ''response'', JStr (ascii ''answer.'')),
                           (ascii ''done'', JBool True)])]"

section \<open>Line wrapping: properties\<close>

lemma last_index_Some: "last_index c xs = Some i \<Longrightarrow> i < length xs \<and> xs ! i = c"
  by (induction xs arbitrary: i) (auto split: option.splits if_splits)

lemma last_index_None: "last_index c xs = None \<longleftrightarrow> c \<notin> set xs"
  by (induction xs) (auto split: option.splits)

lemma last_index_after: "last_index c xs = Some i \<Longrightarrow> c \<notin> set (drop (Suc i) xs)"
proof (induction xs arbitrary: i)
  case Nil
  then show ?case by simp
next
  case (Cons x xs)
  show ?case
  proof (cases "last_index c xs")
    case None
    with Cons.prems have "i = 0" by (simp split: if_splits)
    with None show ?thesis by (simp add: last_index_None)
  next
    case (Some k)
    with Cons.prems have "i = Suc k" by simp
    with Cons.IH [OF Some] show ?thesis by simp
  qed
qed

lemma last_index_append:
  "c \<notin> set ys \<Longrightarrow> last_index c (xs @ c # ys) = Some (length xs)"
  by (induction xs) (auto simp: last_index_None [THEN iffD2])

lemma split_pos_space:
  assumes "32 \<in> set (take 90 line)"
  shows "split_pos line < 90 \<and> split_pos line < length line \<and> line ! split_pos line = 32 \<and>
         32 \<notin> set (drop (Suc (split_pos line)) (take 90 line))"
proof -
  from assms obtain i where i: "last_index 32 (take 90 line) = Some i"
    using last_index_None [of 32 "take 90 line"] by (cases "last_index 32 (take 90 line)") auto
  then have sp: "split_pos line = i" by (simp add: split_pos_def py_rfind_def)
  from last_index_Some [OF i] have "i < 90" "i < length line" "line ! i = 32" by auto
  with last_index_after [OF i] sp show ?thesis by simp
qed

lemma split_pos_hard: "32 \<notin> set (take 90 line) \<Longrightarrow> split_pos line = 90"
  using last_index_None [of 32 "take 90 line"] by (simp add: split_pos_def py_rfind_def)

lemma split_pos_le: "split_pos line \<le> 90"
  using split_pos_space [of line] split_pos_hard [of line]
  by (cases "32 \<in> set (take 90 line)") auto

lemma wrap_short: "length line \<le> 90 \<Longrightarrow> wrap_line line = [line]"
  by (simp add: wrap_line.simps)

lemma wrap_long:
  "90 < length line \<Longrightarrow>
     wrap_line line = take (split_pos line) line # wrap_line (lstrip (drop (split_pos line) line))"
  by (subst wrap_line.simps) simp

lemma wrap_line_nonempty: "wrap_line line \<noteq> []"
  by (subst wrap_line.simps) simp

lemma wrap_line_widths: "list_all (\<lambda>l. length l \<le> 90) (wrap_line line)"
proof (induction line rule: wrap_line.induct)
  case (1 line)
  show ?case
  proof (cases "90 < length line")
    case True
    with 1 split_pos_le [of line] show ?thesis by (simp add: wrap_long)
  next
    case False
    then show ?thesis by (simp add: wrap_short)
  qed
qed

lemma weave_Cons:
  "ls \<noteq> [] \<Longrightarrow> weave (l # ls) (g # gaps) = l @ g @ weave ls gaps"
  by (cases ls) auto

lemma wrap_line_weave:
  "\<exists>gaps. length gaps + 1 = length (wrap_line line) \<and> list_all (list_all py_isspace) gaps \<and>
          weave (wrap_line line) gaps = line"
proof (induction line rule: wrap_line.induct)
  case (1 line)
  show ?case
  proof (cases "90 < length line")
    case False
    then have "wrap_line line = [line]" by (simp add: wrap_short)
    then have "length ([]::pystr list) + 1 = length (wrap_line line) \<and>
               list_all (list_all py_isspace) [] \<and> weave (wrap_line line) [] = line"
      by simp
    then show ?thesis by blast
  next
    case True
    let ?p = "split_pos line"
    let ?rest = "drop ?p line"
    let ?g = "takeWhile py_isspace ?rest"
    from 1 [OF True] obtain gaps where
      gaps: "length gaps + 1 = length (wrap_line (lstrip ?rest))"
            "list_all (list_all py_isspace) gaps"
            "weave (wrap_line (lstrip ?rest)) gaps = lstrip ?rest"
      by blast
    have w: "wrap_line line = take ?p line # wrap_line (lstrip ?rest)"
      using True by (rule wrap_long)
    have g: "list_all py_isspace ?g"
      by (simp add: list_all_iff) (meson set_takeWhileD)
    have "weave (wrap_line line) (?g # gaps) = take ?p line @ ?g @ lstrip ?rest"
      using w gaps(3) wrap_line_nonempty by (simp add: weave_Cons)
    also have "\<dots> = line" by (simp add: lstrip_def)
    finally have "length (?g # gaps) + 1 = length (wrap_line line) \<and>
                  list_all (list_all py_isspace) (?g # gaps) \<and>
                  weave (wrap_line line) (?g # gaps) = line"
      using w gaps g by simp
    then show ?thesis by blast
  qed
qed

lemma filter_lstrip:
  "filter (\<lambda>c. \<not> py_isspace c) (lstrip s) = filter (\<lambda>c. \<not> py_isspace c) s"
  unfolding lstrip_def by (induction s) auto

lemma wrap_line_letters:
  "filter (\<lambda>c. \<not> py_isspace c) (concat (wrap_line line)) = filter (\<lambda>c. \<not> py_isspace c) line"
proof (induction line rule: wrap_line.induct)
  case (1 line)
  show ?case
  proof (cases "90 < length line")
    case False
    then show ?thesis by (simp add: wrap_short)
  next
    case True
    let ?p = "split_pos line"
    have "filter (\<lambda>c. \<not> py_isspace c) (concat (wrap_line line)) =
          filter (\<lambda>c. \<not> py_isspace c) (take ?p line) @ filter (\<lambda>c. \<not> py_isspace c) (drop ?p line)"
      using True 1 [OF True] by (simp add: wrap_long filter_lstrip)
    also have "\<dots> = filter (\<lambda>c. \<not> py_isspace c) (take ?p line @ drop ?p line)"
      by (simp only: filter_append)
    finally show ?thesis by simp
  qed
qed

lemma wrap_at_space:
  "wrap_line (replicate 45 97 @ 32 # replicate 45 98) = [replicate 45 97, replicate 45 98]"
proof -
  let ?L = "replicate 45 97 @ 32 # replicate 45 (98::nat)"
  have "take 90 ?L = replicate 45 97 @ 32 # replicate 44 98" by simp
  then have "last_index 32 (take 90 ?L) = Some 45"
    using last_index_append [of 32 "replicate 44 98" "replicate 45 97"] by simp
  then have sp: "split_pos ?L = 45" by (simp add: split_pos_def py_rfind_def)
  have "lstrip (drop 45 ?L) = replicate 45 98" by (simp add: lstrip_def py_isspace_def)
  with sp show ?thesis by (simp add: wrap_long wrap_short)
qed

text \<open>
  C7, as stated: rejoining the lines produced for one input line, without the breaks
  that were inserted, gives back the input line. It fails on a line of 91 characters with
  one space in the middle: the line is split at the space, and the space is on neither
  part.
\<close>

theorem wrap_line_rejoin_counterexample:
  "wrap_line (replicate 45 97 @ 32 # replicate 45 98) = [replicate 45 97, replicate 45 98] \<and>
   concat (wrap_line (replicate 45 97 @ 32 # replicate 45 98))
     \<noteq> replicate 45 97 @ 32 # replicate 45 98"
proof -
  have "length (concat [replicate 45 (97::nat), replicate 45 98])
          \<noteq> length (replicate 45 (97::nat) @ 32 # replicate 45 98)"
    by simp
  then have "concat [replicate 45 (97::nat), replicate 45 98]
               \<noteq> replicate 45 97 @ 32 # replicate 45 98"
    by metis
  then show ?thesis by (simp only: wrap_at_space) simp
qed

text \<open>
  C7, amended. A line of at most 90 characters is passed on as it is. A longer line is
  split at the last space among its first 90 characters when there is one, and after
  exactly 90 characters otherwise; the loop goes on with what follows the split, stripped
  of the white space it starts with. No produced line is longer than 90 characters. The
  produced lines, rejoined with a run of white space put back at each break, are the
  input line; so the characters of the input that are not white space are all kept, in
  order.
\<close>

theorem wrap_line_splits_and_rejoins:
  "(length line \<le> 90 \<longrightarrow> wrap_line line = [line]) \<and>
   (90 < length line \<longrightarrow>
      wrap_line line =
        take (split_pos line) line # wrap_line (lstrip (drop (split_pos line) line)) \<and>
      (32 \<in> set (take 90 line) \<longrightarrow>
         split_pos line < 90 \<and> line ! split_pos line = 32 \<and>
         32 \<notin> set (drop (Suc (split_pos line)) (take 90 line))) \<and>
      (32 \<notin> set (take 90 line) \<longrightarrow> split_pos line = 90)) \<and>
   list_all (\<lambda>l. length l \<le> 90) (wrap_line line) \<and>
   (\<exists>gaps. length gaps + 1 = length (wrap_line line) \<and>
           list_all (list_all py_isspace) gaps \<and>
           weave (wrap_line line) gaps = line) \<and>
   filter (\<lambda>c. \<not> py_isspace c) (concat (wrap_line line)) = filter (\<lambda>c. \<not> py_isspace c) line"
  using wrap_short [of line] wrap_long [of line] split_pos_space [of line]
    split_pos_hard [of line] wrap_line_widths [of line] wrap_line_weave [of line]
    wrap_line_letters [of line]
  by blast

theorem wrap_line_splits_and_rejoins_witness:
  "wrap_line (ascii ''You: hello'') = [ascii ''You: hello''] \<and>
   90 < length (replicate 45 97 @ 32 # replicate 45 (98::nat)) \<and>
   32 \<in> set (take 90 (replicate 45 97 @ 32 # replicate 45 (98::nat))) \<and>
   split_pos (replicate 45 97 @ 32 # replicate 45 98) < 90 \<and>
   (replicate 45 97 @ 32 # replicate 45 (98::nat)) !
     split_pos (replicate 45 97 @ 32 # replicate 45 98) = 32 \<and>
   90 < length (replicate 91 (97::nat)) \<and>
   32 \<notin> set (take 90 (replicate 91 (97::nat))) \<and>
   split_pos (replicate 91 97) = 90 \<and>
   hd (wrap_line (replicate 91 97)) = replicate 90 97"
proof -
  let ?A = "ascii ''You: hello''"
  let ?B = "replicate 45 97 @ 32 # replicate 45 (98::nat)"
  let ?C = "replicate 91 (97::nat)"
  have a: "length ?A \<le> 90" by (simp add: ascii_def)
  have b1: "90 < length ?B" by simp
  have b2: "32 \<in> set (take 90 ?B)" by simp
  have c1: "90 < length ?C" by simp
  have c2: "32 \<notin> set (take 90 ?C)" by simp
  from wrap_line_splits_and_rejoins [of ?A] a have ra: "wrap_line ?A = [?A]" by blast
  from wrap_line_splits_and_rejoins [of ?B] b1 b2
  have rb: "split_pos ?B < 90 \<and> ?B ! split_pos ?B = 32" by blast
  from wrap_line_splits_and_rejoins [of ?C] c1 c2
  have rc: "split_pos ?C = 90 \<and>
            wrap_line ?C = take (split_pos ?C) ?C # wrap_line (lstrip (drop (split_pos ?C) ?C))"
    by blast
  then have rc': "hd (wrap_line ?C) = replicate 90 97" by simp
  from ra b1 b2 rb c1 c2 rc rc' show ?thesis by blast
qed

section \<open>User and history management: properties\<close>

lemma files_save_history:
  "files (save_history dumps email T fs) = (files fs)(history_path email \<mapsto> dumps T)"
  by (simp add: save_history_def write_file_def makedirs_def)

lemma journal_save_history:
  "journal (save_history dumps email T fs) = journal fs @ [history_path email]"
  by (simp add: save_history_def write_file_def makedirs_def)

text \<open>
  C3. For every identity and every transcript \<open>T\<close> that the JSON library renders and
  parses back to itself (it does so for every sequence of role and content messages, the
  empty one included), \<open>save_history\<close> followed at once by \<open>load_history\<close> for the same
  identity returns \<open>T\<close>, whatever the file system held before.
\<close>

theorem save_then_load_roundtrip:
  assumes "loads (dumps T) = Inr T"
  shows "load_history loads (save_history dumps email T fs) email = Inr T"
  using assms by (simp add: load_history_def path_exists_def open_read_def files_save_history)

theorem save_then_load_roundtrip_witness:
  "stub_loads [(ascii ''[m1, m2]'', JArr [message ''user'' (JStr (ascii ''What is X?'')),
                                           message ''assistant'' (JStr (ascii ''The answer.''))])]
     (stub_dumps [(JArr [message ''user'' (JStr (ascii ''What is X?'')),
                         message ''assistant'' (JStr (ascii ''The answer.''))], ascii ''[m1, m2]'')]
        (JArr [message ''user'' (JStr (ascii ''What is X?'')),
               message ''assistant'' (JStr (ascii ''The answer.''))]))
     = Inr (JArr [message ''user'' (JStr (ascii ''What is X?'')),
                  message ''assistant'' (JStr (ascii ''The answer.''))]) \<and>
   load_history
     (stub_loads [(ascii ''[m1, m2]'', JArr [message ''user'' (JStr (ascii ''What is X?'')),
                                             message ''assistant'' (JStr (ascii ''The answer.''))])])
     (save_history
        (stub_dumps [(JArr [message ''user'' (JStr (ascii ''What is X?'')),
                            message ''assistant'' (JStr (ascii ''The answer.''))], ascii ''[m1, m2]'')])
        (ascii ''a@x.com'')
        (JArr [message ''user'' (JStr (ascii ''What is X?'')),
               message ''assistant'' (JStr (ascii ''The answer.''))])
        empty_fs)
     (ascii ''a@x.com'')
     = Inr (JArr [message ''user'' (JStr (ascii ''What is X?'')),
                  message ''assistant'' (JStr (ascii ''The answer.''))])"
proof -
  let ?T = "JArr [message ''user'' (JStr (ascii ''What is X?'')),
                  message ''assistant'' (JStr (ascii ''The answer.''))]"
  let ?loads = "stub_loads [(ascii ''[m1, m2]'', ?T)]"
  let ?dumps = "stub_dumps [(?T, ascii ''[m1, m2]'')]"
  have rt: "?loads (?dumps ?T) = Inr ?T"
    by (simp add: stub_loads_def stub_dumps_def)
  from rt save_then_load_roundtrip [of ?loads ?dumps ?T "ascii ''a@x.com''" empty_fs]
  show ?thesis by blast
qed

lemma load_history_absent:
  "\<not> path_exists fs (history_path email) \<Longrightarrow> load_history loads fs email = Inr (JArr [])"
  by (simp add: load_history_def)

text \<open>
  C4. \<open>load_history\<close> is to return the empty list, and raise nothing, when the identity
  has no stored record and when the stored record fails to parse; the comment of the
  source says that the empty list is returned when the history is corrupted. The source
  catches \<open>JSONDecodeError\<close> only, and it raises on two records. The first is a stored
  record whose bytes are not text, here the single byte 255: reading it raises
  \<open>UnicodeDecodeError\<close>, which passes through. The second is a directory where the
  record would be: signing up the identity \<open>a@x.com/chat.json\<close> creates the directory
  \<open>history/a@x.com/chat.json\<close>, which is the path of the record of \<open>a@x.com\<close>; the
  path exists, and opening it raises \<open>IsADirectoryError\<close>.
\<close>

theorem load_history_raises_on_corrupt_record:
  "load_history (\<lambda>b. Inl (Exn UnicodeDecodeError (ascii ''invalid start byte'')))
     (write_file (history_path (ascii ''a@x.com'')) [255] empty_fs) (ascii ''a@x.com'')
     = Inl (Exn UnicodeDecodeError (ascii ''invalid start byte'')) \<and>
   signup (stub_loads []) (stub_dumps []) empty_fs (ascii ''a@x.com/chat.json'') (ascii ''pw1'')
     = Inr (True, \<lparr>files = [USER_DB_FILE \<mapsto> []],
                    dirs = {ascii ''history/a@x.com/chat.json''},
                    journal = [USER_DB_FILE]\<rparr>) \<and>
   history_path (ascii ''a@x.com'') = ascii ''history/a@x.com/chat.json'' \<and>
   load_history (stub_loads [])
     \<lparr>files = [USER_DB_FILE \<mapsto> []], dirs = {ascii ''history/a@x.com/chat.json''},
      journal = [USER_DB_FILE]\<rparr>
     (ascii ''a@x.com'')
     = Inl (Exn IsADirectoryError (ascii ''history/a@x.com/chat.json''))"
proof -
  have 1: "load_history (\<lambda>b. Inl (Exn UnicodeDecodeError (ascii ''invalid start byte'')))
     (write_file (history_path (ascii ''a@x.com'')) [255] empty_fs) (ascii ''a@x.com'')
     = Inl (Exn UnicodeDecodeError (ascii ''invalid start byte''))"
    by (simp add: load_history_def path_exists_def open_read_def write_file_def)
  have d: "history_dir (ascii ''a@x.com/chat.json'') = ascii ''history/a@x.com/chat.json''"
    by (simp add: history_dir_def HISTORY_DIR_def ascii_def)
  have 2: "signup (stub_loads []) (stub_dumps []) empty_fs (ascii ''a@x.com/chat.json'')
             (ascii ''pw1'')
     = Inr (True, \<lparr>files = [USER_DB_FILE \<mapsto> []],
                    dirs = {ascii ''history/a@x.com/chat.json''},
                    journal = [USER_DB_FILE]\<rparr>)"
    unfolding signup_def d [symmetric]
    by (simp add: load_users_def path_exists_def open_read_def empty_fs_def save_users_def
          write_file_def makedirs_def stub_dumps_def ascii_def)
  have 3: "history_path (ascii ''a@x.com'') = ascii ''history/a@x.com/chat.json''"
    by (simp add: history_path_def HISTORY_DIR_def ascii_def)
  have "ascii ''history/a@x.com/chat.json'' \<noteq> USER_DB_FILE"
    by (simp add: USER_DB_FILE_def ascii_def)
  then have 4: "load_history (stub_loads [])
     \<lparr>files = [USER_DB_FILE \<mapsto> []], dirs = {ascii ''history/a@x.com/chat.json''},
      journal = [USER_DB_FILE]\<rparr>
     (ascii ''a@x.com'')
     = Inl (Exn IsADirectoryError (ascii ''history/a@x.com/chat.json''))"
    unfolding load_history_def 3 by (simp add: path_exists_def open_read_def)
  from 1 2 3 4 show ?thesis by blast
qed

text \<open>
  C10. \<open>load_history\<close> validates no shape: whatever value the stored record parses to,
  an object, a string or a list of entries without role and content, is returned as it
  is. The empty list replaces the record only when parsing raises \<open>JSONDecodeError\<close>;
  any other exception of the library passes through to the caller.
\<close>

theorem load_history_no_shape_validation:
  assumes "files fs (history_path email) = Some c"
  shows "(loads c = Inr v \<longrightarrow> load_history loads fs email = Inr v) \<and>
         (loads c = Inl e \<and> exc_class_of e = JSONDecodeError \<longrightarrow>
            load_history loads fs email = Inr (JArr [])) \<and>
         (loads c = Inl e \<and> exc_class_of e \<noteq> JSONDecodeError \<longrightarrow>
            load_history loads fs email = Inl e)"
  using assms by (simp add: load_history_def path_exists_def open_read_def)

theorem load_history_no_shape_validation_witness:
  "load_history (stub_loads [(ascii ''{x: 1}'', JObj [(ascii ''x'', JInt 1)])])
     (write_file (history_path (ascii ''a@x.com'')) (ascii ''{x: 1}'') empty_fs) (ascii ''a@x.com'')
     = Inr (JObj [(ascii ''x'', JInt 1)]) \<and>
   load_history (stub_loads [(ascii ''text'', JStr (ascii ''hello''))])
     (write_file (history_path (ascii ''a@x.com'')) (ascii ''text'') empty_fs) (ascii ''a@x.com'')
     = Inr (JStr (ascii ''hello'')) \<and>
   load_history (stub_loads [(ascii ''[{}, 7]'', JArr [JObj [], JInt 7])])
     (write_file (history_path (ascii ''a@x.com'')) (ascii ''[{}, 7]'') empty_fs) (ascii ''a@x.com'')
     = Inr (JArr [JObj [], JInt 7]) \<and>
   load_history (stub_loads [])
     (write_file (history_path (ascii ''a@x.com'')) (ascii ''[{'') empty_fs) (ascii ''a@x.com'')
     = Inr (JArr []) \<and>
   load_history (\<lambda>b. Inl (Exn UnicodeDecodeError (ascii ''invalid start byte'')))
     (write_file (history_path (ascii ''a@x.com'')) [255] empty_fs) (ascii ''a@x.com'')
     = Inl (Exn UnicodeDecodeError (ascii ''invalid start byte''))"
proof -
  have f: "files (write_file (history_path (ascii ''a@x.com'')) c empty_fs)
             (history_path (ascii ''a@x.com'')) = Some c" for c
    by (simp add: write_file_def)
  have "stub_loads [(ascii ''{x: 1}'', JObj [(ascii ''x'', JInt 1)])] (ascii ''{x: 1}'')
          = Inr (JObj [(ascii ''x'', JInt 1)])"
    by (simp add: stub_loads_def)
  with load_history_no_shape_validation [OF f, where v = "JObj [(ascii ''x'', JInt 1)]"]
  have 1: "load_history (stub_loads [(ascii ''{x: 1}'', JObj [(ascii ''x'', JInt 1)])])
     (write_file (history_path (ascii ''a@x.com'')) (ascii ''{x: 1}'') empty_fs) (ascii ''a@x.com'')
     = Inr (JObj [(ascii ''x'', JInt 1)])"
    by blast
  have "stub_loads [(ascii ''text'', JStr (ascii ''hello''))] (ascii ''text'')
          = Inr (JStr (ascii ''hello''))"
    by (simp add: stub_loads_def)
  with load_history_no_shape_validation [OF f, where v = "JStr (ascii ''hello'')"]
  have 2: "load_history (stub_loads [(ascii ''text'', JStr (ascii ''hello''))])
     (write_file (history_path (ascii ''a@x.com'')) (ascii ''text'') empty_fs) (ascii ''a@x.com'')
     = Inr (JStr (ascii ''hello''))"
    by blast
  have "stub_loads [(ascii ''[{}, 7]'', JArr [JObj [], JInt 7])] (ascii ''[{}, 7]'')
          = Inr (JArr [JObj [], JInt 7])"
    by (simp add: stub_loads_def)
  with load_history_no_shape_validation [OF f, where v = "JArr [JObj [], JInt 7]"]
  have 3: "load_history (stub_loads [(ascii ''[{}, 7]'', JArr [JObj [], JInt 7])])
     (write_file (history_path (ascii ''a@x.com'')) (ascii ''[{}, 7]'') empty_fs) (ascii ''a@x.com'')
     = Inr (JArr [JObj [], JInt 7])"
    by blast
  have "stub_loads [] (ascii ''[{'') = Inl (Exn JSONDecodeError (ascii ''Expecting value'')) \<and>
        exc_class_of (Exn JSONDecodeError (ascii ''Expecting value'')) = JSONDecodeError"
    by (simp add: stub_loads_def)
  with load_history_no_shape_validation
         [OF f, where e = "Exn JSONDecodeError (ascii ''Expecting value'')" and loads = "stub_loads []"]
  have 4: "load_history (stub_loads [])
     (write_file (history_path (ascii ''a@x.com'')) (ascii ''[{'') empty_fs) (ascii ''a@x.com'')
     = Inr (JArr [])"
    by blast
  have "exc_class_of (Exn UnicodeDecodeError (ascii ''invalid start byte'')) \<noteq> JSONDecodeError"
    by simp
  with load_history_no_shape_validation
         [OF f, where e = "Exn UnicodeDecodeError (ascii ''invalid start byte'')"
                  and loads = "\<lambda>b. Inl (Exn UnicodeDecodeError (ascii ''invalid start byte''))"]
  have 5: "load_history (\<lambda>b. Inl (Exn UnicodeDecodeError (ascii ''invalid start byte'')))
     (write_file (history_path (ascii ''a@x.com'')) [255] empty_fs) (ascii ''a@x.com'')
     = Inl (Exn UnicodeDecodeError (ascii ''invalid start byte''))"
    by blast
  from 1 2 3 4 5 show ?thesis by blast
qed

lemma update_fresh: "k \<notin> fst ` set al \<Longrightarrow> AList.update k v al = al @ [(k, v)]"
  by (induction al) auto

lemma py_in_JObj: "py_in k (JObj kvs) = Inr (k \<in> fst ` set kvs)"
  using map_of_eq_None_iff [of kvs k] by auto

text \<open>
  C5. For every state of the account store, a dict \<open>kvs\<close> from identities to
  credentials, and every identity and credential, \<open>login\<close> returns true exactly when
  the identity is a key of the store and the value stored for it equals the credential.
\<close>

theorem login_iff_stored_credential:
  assumes "load_users loads fs = Inr (JObj kvs)"
  shows "login loads fs email password =
           Inr (email \<in> fst ` set kvs \<and> map_of kvs email = Some (JStr password))"
proof (cases "map_of kvs email")
  case None
  then have "email \<notin> fst ` set kvs" by (simp add: map_of_eq_None_iff)
  with assms None show ?thesis by (simp add: login_def)
next
  case (Some v)
  then have "email \<in> fst ` set kvs" using map_of_eq_None_iff [of kvs email] by auto
  with assms Some show ?thesis by (simp add: login_def)
qed

theorem login_iff_stored_credential_witness:
  "load_users (stub_loads [(ascii ''users'', JObj [(ascii ''a@x.com'', JStr (ascii ''pw1''))])])
     (write_file USER_DB_FILE (ascii ''users'') empty_fs)
     = Inr (JObj [(ascii ''a@x.com'', JStr (ascii ''pw1''))]) \<and>
   login (stub_loads [(ascii ''users'', JObj [(ascii ''a@x.com'', JStr (ascii ''pw1''))])])
     (write_file USER_DB_FILE (ascii ''users'') empty_fs) (ascii ''a@x.com'') (ascii ''pw1'')
     = Inr True \<and>
   login (stub_loads [(ascii ''users'', JObj [(ascii ''a@x.com'', JStr (ascii ''pw1''))])])
     (write_file USER_DB_FILE (ascii ''users'') empty_fs) (ascii ''a@x.com'') (ascii ''pw2'')
     = Inr False \<and>
   login (stub_loads [(ascii ''users'', JObj [(ascii ''a@x.com'', JStr (ascii ''pw1''))])])
     (write_file USER_DB_FILE (ascii ''users'') empty_fs) (ascii ''b@x.com'') (ascii ''pw1'')
     = Inr False"
proof -
  let ?loads = "stub_loads [(ascii ''users'', JObj [(ascii ''a@x.com'', JStr (ascii ''pw1''))])]"
  let ?fs = "write_file USER_DB_FILE (ascii ''users'') empty_fs"
  have h: "load_users ?loads ?fs = Inr (JObj [(ascii ''a@x.com'', JStr (ascii ''pw1''))])"
    by (simp add: load_users_def path_exists_def open_read_def write_file_def stub_loads_def)
  have 1: "login ?loads ?fs (ascii ''a@x.com'') (ascii ''pw1'') = Inr True"
    using login_iff_stored_credential [OF h, of "ascii ''a@x.com''" "ascii ''pw1''"] by simp
  have 2: "login ?loads ?fs (ascii ''a@x.com'') (ascii ''pw2'') = Inr False"
    using login_iff_stored_credential [OF h, of "ascii ''a@x.com''" "ascii ''pw2''"]
    by (simp add: ascii_def)
  have 3: "login ?loads ?fs (ascii ''b@x.com'') (ascii ''pw1'') = Inr False"
    using login_iff_stored_credential [OF h, of "ascii ''b@x.com''" "ascii ''pw1''"]
    by (simp add: ascii_def)
  from h 1 2 3 show ?thesis by blast
qed

lemma history_dir_literal: "history_dir email = ascii ''history/'' @ email"
  by (simp add: history_dir_def HISTORY_DIR_def ascii_def)

lemma history_path_literal: "history_path email = ascii ''history/'' @ email @ ascii ''/chat.json''"
  by (simp add: history_path_def HISTORY_DIR_def ascii_def)

text \<open>
  C6. For every state of the account store, \<open>signup\<close> returns false and leaves the
  file system as it was when the identity is empty, the credential is empty or the
  identity is already a key of the store. Otherwise it returns true, writes the store to
  \<open>users.json\<close> with the new account added at the end and every other account as
  before, and creates the directory \<open>history/\<close> followed by the identity. That
  directory is the one \<open>save_history\<close> asks for, and the transcript of the identity is
  the file \<open>chat.json\<close> in it.
\<close>

theorem signup_spec:
  assumes "load_users loads fs = Inr (JObj kvs)"
  shows "(email = [] \<or> password = [] \<or> email \<in> fst ` set kvs \<longrightarrow>
            signup loads dumps fs email password = Inr (False, fs)) \<and>
         (email \<noteq> [] \<and> password \<noteq> [] \<and> email \<notin> fst ` set kvs \<longrightarrow>
            signup loads dumps fs email password =
              Inr (True,
                   fs\<lparr>files := (files fs)(ascii ''users.json'' \<mapsto>
                                   dumps (JObj (kvs @ [(email, JStr password)]))),
                      dirs := insert (ascii ''history/'' @ email) (dirs fs),
                      journal := journal fs @ [ascii ''users.json'']\<rparr>) \<and>
            map_of (kvs @ [(email, JStr password)]) = (map_of kvs)(email \<mapsto> JStr password)) \<and>
         history_path email = (ascii ''history/'' @ email) @ ascii ''/chat.json'' \<and>
         dirs (save_history dumps email T fs) = insert (ascii ''history/'' @ email) (dirs fs) \<and>
         files (save_history dumps email T fs)
           ((ascii ''history/'' @ email) @ ascii ''/chat.json'') = Some (dumps T)"
proof (intro conjI impI)
  assume "email = [] \<or> password = [] \<or> email \<in> fst ` set kvs"
  then consider "email = [] \<or> password = []"
    | "email \<noteq> []" "password \<noteq> []" "email \<in> fst ` set kvs" by blast
  then show "signup loads dumps fs email password = Inr (False, fs)"
  proof cases
    case 1
    then show ?thesis by (simp add: signup_def)
  next
    case 2
    with assms show ?thesis by (simp add: signup_def py_in_JObj del: py_in.simps)
  qed
next
  assume a: "email \<noteq> [] \<and> password \<noteq> [] \<and> email \<notin> fst ` set kvs"
  then have "map_of kvs email = None" by (simp add: map_of_eq_None_iff)
  with a assms have "signup loads dumps fs email password =
      Inr (True,
           fs\<lparr>files := (files fs)(USER_DB_FILE \<mapsto> dumps (JObj (kvs @ [(email, JStr password)]))),
              dirs := insert (history_dir email) (dirs fs),
              journal := journal fs @ [USER_DB_FILE]\<rparr>)"
    by (simp add: signup_def py_in_JObj update_fresh save_users_def write_file_def makedirs_def
          del: py_in.simps)
  then show "signup loads dumps fs email password =
      Inr (True,
           fs\<lparr>files := (files fs)(ascii ''users.json'' \<mapsto>
                           dumps (JObj (kvs @ [(email, JStr password)]))),
              dirs := insert (ascii ''history/'' @ email) (dirs fs),
              journal := journal fs @ [ascii ''users.json'']\<rparr>)"
    by (simp only: history_dir_literal USER_DB_FILE_def)
next
  assume a: "email \<noteq> [] \<and> password \<noteq> [] \<and> email \<notin> fst ` set kvs"
  then have "map_of kvs email = None" by (simp add: map_of_eq_None_iff)
  then show "map_of (kvs @ [(email, JStr password)]) = (map_of kvs)(email \<mapsto> JStr password)"
    by (auto simp: map_add_def fun_eq_iff split: option.splits)
next
  show "history_path email = (ascii ''history/'' @ email) @ ascii ''/chat.json''"
    by (simp add: history_path_literal)
next
  show "dirs (save_history dumps email T fs) = insert (ascii ''history/'' @ email) (dirs fs)"
    by (simp add: save_history_def write_file_def makedirs_def history_dir_literal)
next
  have "files (save_history dumps email T fs) (history_path email) = Some (dumps T)"
    by (simp add: files_save_history)
  then show "files (save_history dumps email T fs)
           ((ascii ''history/'' @ email) @ ascii ''/chat.json'') = Some (dumps T)"
    by (simp add: history_path_literal)
qed

theorem signup_spec_witness:
  "load_users (stub_loads []) empty_fs = Inr (JObj []) \<and>
   signup (stub_loads []) (stub_dumps []) empty_fs [] (ascii ''pw1'') = Inr (False, empty_fs) \<and>
   signup (stub_loads []) (stub_dumps []) empty_fs (ascii ''a@x.com'') [] = Inr (False, empty_fs) \<and>
   signup (stub_loads [])
     (stub_dumps [(JObj [(ascii ''a@x.com'', JStr (ascii ''pw1''))], ascii ''users'')])
     empty_fs (ascii ''a@x.com'') (ascii ''pw1'')
     = Inr (True, \<lparr>files = [ascii ''users.json'' \<mapsto> ascii ''users''],
                    dirs = {ascii ''history/a@x.com''},
                    journal = [ascii ''users.json'']\<rparr>) \<and>
   signup (stub_loads [(ascii ''users'', JObj [(ascii ''a@x.com'', JStr (ascii ''pw1''))])])
     (stub_dumps [])
     \<lparr>files = [ascii ''users.json'' \<mapsto> ascii ''users''], dirs = {ascii ''history/a@x.com''},
      journal = [ascii ''users.json'']\<rparr>
     (ascii ''a@x.com'') (ascii ''other'')
     = Inr (False, \<lparr>files = [ascii ''users.json'' \<mapsto> ascii ''users''],
                     dirs = {ascii ''history/a@x.com''},
                     journal = [ascii ''users.json'']\<rparr>)"
proof -
  let ?fs1 = "\<lparr>files = [ascii ''users.json'' \<mapsto> ascii ''users''],
              dirs = {ascii ''history/a@x.com''}, journal = [ascii ''users.json'']\<rparr>"
  let ?loads1 = "stub_loads [(ascii ''users'', JObj [(ascii ''a@x.com'', JStr (ascii ''pw1''))])]"
  let ?dumps1 = "stub_dumps [(JObj [(ascii ''a@x.com'', JStr (ascii ''pw1''))], ascii ''users'')]"
  have h0: "load_users (stub_loads []) empty_fs = Inr (JObj [])"
    by (simp add: load_users_def path_exists_def open_read_def empty_fs_def)
  have h1: "load_users ?loads1 ?fs1 = Inr (JObj [(ascii ''a@x.com'', JStr (ascii ''pw1''))])"
    by (simp add: load_users_def path_exists_def open_read_def stub_loads_def USER_DB_FILE_def)
  have 1: "signup (stub_loads []) (stub_dumps []) empty_fs [] (ascii ''pw1'') = Inr (False, empty_fs)"
    using signup_spec [OF h0, of "[]" "ascii ''pw1''" "stub_dumps []"] by simp
  have 2: "signup (stub_loads []) (stub_dumps []) empty_fs (ascii ''a@x.com'') []
             = Inr (False, empty_fs)"
    using signup_spec [OF h0, of "ascii ''a@x.com''" "[]" "stub_dumps []"] by simp
  have 3: "signup (stub_loads []) ?dumps1 empty_fs (ascii ''a@x.com'') (ascii ''pw1'')
             = Inr (True, ?fs1)"
    using signup_spec [OF h0, of "ascii ''a@x.com''" "ascii ''pw1''" ?dumps1]
    by (simp add: ascii_def empty_fs_def stub_dumps_def)
  have 4: "signup ?loads1 (stub_dumps []) ?fs1 (ascii ''a@x.com'') (ascii ''other'')
             = Inr (False, ?fs1)"
    using signup_spec [OF h1, of "ascii ''a@x.com''" "ascii ''other''" "stub_dumps []"] by simp
  from h0 1 2 3 4 show ?thesis by blast
qed

section \<open>The inference client: properties\<close>

lemma except_handlers_marked: "\<exists>rest. except_handlers e = CROSS_MARK @ rest"
proof (cases e)
  case (Exn c m)
  then show ?thesis by (cases c) simp_all
qed

lemma str_contains_single: "str_contains [c] s = (c \<in> set s)"
  by (induction s) auto

lemma py_in_marked: "py_in CROSS_MARK (JStr (CROSS_MARK @ rest)) = Inr True"
  by (simp add: CROSS_MARK_def)

lemma write_stream_loop_text:
  "write_stream_loop (map JStr frags) streamed written =
     flush_stream_response (streamed @ concat frags) written"
  by (induction frags arbitrary: streamed) simp_all

lemma write_stream_text: "write_stream (map JStr frags) = JStr (concat frags)"
  by (simp add: write_stream_def write_stream_loop_text)

lemma write_stream_single: "write_stream [JStr s] = JStr s"
  using write_stream_text [of "[s]"] by simp

lemma stream_lines_text:
  assumes "list_all2
             (\<lambda>line frag. \<exists>chunk. loads line = Inr chunk \<and>
                py_get chunk (ascii ''response'') (JStr []) = Inr (JStr frag))
             (filter (\<lambda>l. l \<noteq> []) ls) frags"
  shows "stream_lines loads ls = (map JStr frags, None)"
  using assms
proof (induction ls arbitrary: frags)
  case Nil
  then show ?case by simp
next
  case (Cons line rest)
  show ?case
  proof (cases "line = []")
    case True
    with Cons show ?thesis by simp
  next
    case False
    with Cons.prems obtain frag frags' where
      fr: "frags = frag # frags'"
      and hd: "\<exists>chunk. loads line = Inr chunk \<and>
                 py_get chunk (ascii ''response'') (JStr []) = Inr (JStr frag)"
      and tl: "list_all2
             (\<lambda>line frag. \<exists>chunk. loads line = Inr chunk \<and>
                py_get chunk (ascii ''response'') (JStr []) = Inr (JStr frag))
             (filter (\<lambda>l. l \<noteq> []) rest) frags'"
      by (auto simp: list_all2_Cons1)
    from Cons.IH [OF tl] have "stream_lines loads rest = (map JStr frags', None)" .
    with False hd fr show ?thesis by auto
  qed
qed

lemma ask_post_raises:
  "post (build_request q c) = Raises e \<Longrightarrow>
     ask_ollama_stream post loads q c = [JStr (except_handlers e)]"
  by (simp add: ask_ollama_stream_def try_body_def)

lemma ask_bad_status:
  "post (build_request q c) = Responds r \<Longrightarrow> status_code r \<noteq> 200 \<Longrightarrow>
     ask_ollama_stream post loads q c =
       [JStr (CROSS_MARK @ ascii '' Ollama Error '' @ py_str_nat (status_code r)
              @ ascii '': '' @ response_text r)]"
  by (simp add: ask_ollama_stream_def try_body_def)

lemma ask_stream_breaks:
  "post (build_request q c) = Responds r \<Longrightarrow> status_code r = 200 \<Longrightarrow>
   stream_lines loads (iter_lines r) = (ys, None) \<Longrightarrow> iter_error r = Some e \<Longrightarrow>
     ask_ollama_stream post loads q c = ys @ [JStr (except_handlers e)]"
  by (simp add: ask_ollama_stream_def try_body_def)

text \<open>
  C1, as stated: whenever the wait bound passes, the generator yields a single fragment,
  which begins with the failure marker. It fails when the bound passes during the
  stream: after a 200 response has delivered one record, a read that times out leaves
  the fragment of that record first and the failure message second. The same holds
  whichever of the two classes the library raises for the timeout.
\<close>

theorem stream_break_counterexample:
  "ask_ollama_stream
     (\<lambda>req. Responds \<lparr>status_code = 200, response_text = [], iter_lines = [ascii ''r1''],
                        iter_error = Some (Exn ReadTimeout (ascii ''Read timed out.''))\<rparr>)
     (stub_loads [(ascii ''r1'', JObj [(ascii ''response'', JStr (ascii ''Hi''))])])
     (ascii ''What is X?'') (ascii ''doc'')
     = [JStr (ascii ''Hi''),
        JStr (CROSS_MARK @ ascii '' Ollama connection timed out. The model may be taking too long to load. Please try again.'')] \<and>
   ask_ollama_stream
     (\<lambda>req. Responds \<lparr>status_code = 200, response_text = [], iter_lines = [ascii ''r1''],
                        iter_error = Some (Exn ConnectionError (ascii ''Read timed out.''))\<rparr>)
     (stub_loads [(ascii ''r1'', JObj [(ascii ''response'', JStr (ascii ''Hi''))])])
     (ascii ''What is X?'') (ascii ''doc'')
     = [JStr (ascii ''Hi''),
        JStr (CROSS_MARK @ ascii '' Failed to connect to Ollama. Is it running? Error: ''
              @ ascii ''Read timed out.'')] \<and>
   length
     (ask_ollama_stream
        (\<lambda>req. Responds \<lparr>status_code = 200, response_text = [], iter_lines = [ascii ''r1''],
                           iter_error = Some (Exn ReadTimeout (ascii ''Read timed out.''))\<rparr>)
        (stub_loads [(ascii ''r1'', JObj [(ascii ''response'', JStr (ascii ''Hi''))])])
        (ascii ''What is X?'') (ascii ''doc'')) = 2"
proof -
  let ?loads = "stub_loads [(ascii ''r1'', JObj [(ascii ''response'', JStr (ascii ''Hi''))])]"
  let ?r = "\<lambda>e. \<lparr>status_code = 200, response_text = [], iter_lines = [ascii ''r1''],
                  iter_error = Some e\<rparr>"
  have sl: "stream_lines ?loads (iter_lines (?r e)) = ([JStr (ascii ''Hi'')], None)" for e
    by (simp add: stub_loads_def ascii_def)
  have br: "ask_ollama_stream (\<lambda>req. Responds (?r e)) ?loads (ascii ''What is X?'') (ascii ''doc'')
              = [JStr (ascii ''Hi'')] @ [JStr (except_handlers e)]" for e
    by (rule ask_stream_breaks [OF _ _ sl]) simp_all
  have 1: "ask_ollama_stream (\<lambda>req. Responds (?r (Exn ReadTimeout (ascii ''Read timed out.''))))
             ?loads (ascii ''What is X?'') (ascii ''doc'')
     = [JStr (ascii ''Hi''),
        JStr (CROSS_MARK @ ascii '' Ollama connection timed out. The model may be taking too long to load. Please try again.'')]"
    by (simp add: br)
  have 2: "ask_ollama_stream (\<lambda>req. Responds (?r (Exn ConnectionError (ascii ''Read timed out.''))))
             ?loads (ascii ''What is X?'') (ascii ''doc'')
     = [JStr (ascii ''Hi''),
        JStr (CROSS_MARK @ ascii '' Failed to connect to Ollama. Is it running? Error: ''
              @ ascii ''Read timed out.'')]"
    by (simp add: br)
  have 3: "length (ask_ollama_stream
             (\<lambda>req. Responds (?r (Exn ReadTimeout (ascii ''Read timed out.''))))
             ?loads (ascii ''What is X?'') (ascii ''doc'')) = 2"
    by (simp add: br)
  from 1 2 3 show ?thesis by simp
qed

text \<open>
  C1, amended. Whatever the question and the context: when the request raises before
  there is a response (the connection cannot be made, or the wait bound passes), the
  generator yields exactly one fragment, the message of the handler that catches the
  exception; when the response has a status other than 200, it yields exactly one
  fragment that names the status. When the stream of a 200 response breaks after some
  records, the fragments of those records are followed by exactly one such message.
  Every one of these messages begins with the failure marker, the cross mark, and the
  generator raises nothing: its result is the list of its fragments.
\<close>

theorem failure_is_one_marked_fragment:
  "(post (build_request question context_text) = Raises e \<longrightarrow>
      ask_ollama_stream post loads question context_text = [JStr (except_handlers e)]) \<and>
   (post (build_request question context_text) = Responds r \<and> status_code r \<noteq> 200 \<longrightarrow>
      ask_ollama_stream post loads question context_text =
        [JStr (10060 # ascii '' Ollama Error '' @ py_str_nat (status_code r)
               @ ascii '': '' @ response_text r)]) \<and>
   (post (build_request question context_text) = Responds r \<and> status_code r = 200 \<and>
    stream_lines loads (iter_lines r) = (ys, None) \<and> iter_error r = Some e \<longrightarrow>
      ask_ollama_stream post loads question context_text = ys @ [JStr (except_handlers e)]) \<and>
   (\<exists>rest. except_handlers e = 10060 # rest)"
proof -
  have marked: "\<exists>rest. except_handlers e = 10060 # rest"
    using except_handlers_marked [of e] by (auto simp: CROSS_MARK_def)
  have status: "post (build_request question context_text) = Responds r \<and> status_code r \<noteq> 200
      \<longrightarrow> ask_ollama_stream post loads question context_text =
        [JStr (10060 # ascii '' Ollama Error '' @ py_str_nat (status_code r)
               @ ascii '': '' @ response_text r)]"
    using ask_bad_status [of post question context_text r loads] by (simp add: CROSS_MARK_def)
  show ?thesis
    using ask_post_raises [of post question context_text e loads] status
      ask_stream_breaks [of post question context_text r loads ys e] marked
    by blast
qed

theorem failure_is_one_marked_fragment_witness:
  "ask_ollama_stream (\<lambda>req. Raises (Exn ConnectionError (ascii ''refused''))) (stub_loads [])
     (ascii ''What is X?'') (ascii ''doc'')
     = [JStr (CROSS_MARK @ ascii '' Failed to connect to Ollama. Is it running? Error: ''
              @ ascii ''refused'')] \<and>
   ask_ollama_stream (\<lambda>req. Raises (Exn ReadTimeout (ascii ''read timed out''))) (stub_loads [])
     (ascii ''What is X?'') (ascii ''doc'')
     = [JStr (CROSS_MARK @ ascii '' Ollama connection timed out. The model may be taking too long to load. Please try again.'')] \<and>
   ask_ollama_stream
     (\<lambda>req. Responds \<lparr>status_code = 500, response_text = ascii ''boom'', iter_lines = [],
                        iter_error = None\<rparr>)
     (stub_loads []) (ascii ''What is X?'') (ascii ''doc'')
     = [JStr (CROSS_MARK @ ascii '' Ollama Error '' @ ascii ''500'' @ ascii '': '' @ ascii ''boom'')] \<and>
   ask_ollama_stream
     (\<lambda>req. Responds \<lparr>status_code = 200, response_text = [], iter_lines = [ascii ''r1''],
                        iter_error = Some (Exn ConnectionError (ascii ''read timed out''))\<rparr>)
     (stub_loads [(ascii ''r1'', JObj [(ascii ''response'', JStr (ascii ''Hi''))])])
     (ascii ''What is X?'') (ascii ''doc'')
     = [JStr (ascii ''Hi''),
        JStr (CROSS_MARK @ ascii '' Failed to connect to Ollama. Is it running? Error: ''
              @ ascii ''read timed out'')]"
proof -
  let ?q = "ascii ''What is X?''"
  let ?c = "ascii ''doc''"
  let ?p1 = "\<lambda>req::request. Raises (Exn ConnectionError (ascii ''refused''))"
  let ?p2 = "\<lambda>req::request. Raises (Exn ReadTimeout (ascii ''read timed out''))"
  let ?r3 = "\<lparr>status_code = 500, response_text = ascii ''boom'', iter_lines = [],
              iter_error = None\<rparr>"
  let ?r4 = "\<lparr>status_code = 200, response_text = [], iter_lines = [ascii ''r1''],
              iter_error = Some (Exn ConnectionError (ascii ''read timed out''))\<rparr>"
  let ?l4 = "stub_loads [(ascii ''r1'', JObj [(ascii ''response'', JStr (ascii ''Hi''))])]"
  have 1: "ask_ollama_stream ?p1 (stub_loads []) ?q ?c
             = [JStr (except_handlers (Exn ConnectionError (ascii ''refused'')))]"
    using failure_is_one_marked_fragment
            [of ?p1 ?q ?c "Exn ConnectionError (ascii ''refused'')" "stub_loads []"]
    by simp
  have 2: "ask_ollama_stream ?p2 (stub_loads []) ?q ?c
             = [JStr (except_handlers (Exn ReadTimeout (ascii ''read timed out'')))]"
    using failure_is_one_marked_fragment
            [of ?p2 ?q ?c "Exn ReadTimeout (ascii ''read timed out'')" "stub_loads []"]
    by simp
  have s500: "py_str_nat 500 = ascii ''500''"
    by (simp add: py_str_nat.simps ascii_def)
  have 3: "ask_ollama_stream (\<lambda>req. Responds ?r3) (stub_loads []) ?q ?c
             = [JStr (CROSS_MARK @ ascii '' Ollama Error '' @ ascii ''500'' @ ascii '': ''
                      @ ascii ''boom'')]"
    using failure_is_one_marked_fragment
            [of "\<lambda>req. Responds ?r3" ?q ?c _ "stub_loads []" ?r3] s500
    by (simp add: CROSS_MARK_def)
  have sl: "stream_lines ?l4 (iter_lines ?r4) = ([JStr (ascii ''Hi'')], None)"
    by (simp add: stub_loads_def ascii_def)
  have 4: "ask_ollama_stream (\<lambda>req. Responds ?r4) ?l4 ?q ?c
             = [JStr (ascii ''Hi''),
                JStr (except_handlers (Exn ConnectionError (ascii ''read timed out'')))]"
    using failure_is_one_marked_fragment
            [of "\<lambda>req. Responds ?r4" ?q ?c "Exn ConnectionError (ascii ''read timed out'')"
                ?l4 ?r4 "[JStr (ascii ''Hi'')]"] sl
    by simp
  from 1 2 3 4 show ?thesis by simp
qed

text \<open>
  C8. For a response of status 200 whose stream ends normally and whose non-empty lines
  each parse to a record with a text fragment (the empty text when the record has no
  \<open>response\<close> member), the generator yields the fragments of the records, one for one
  and in order, each from its own line alone; the full response that \<open>write_stream\<close>
  returns is their concatenation.
\<close>

theorem records_yield_fragments:
  assumes "post (build_request question context_text) = Responds r"
    and "status_code r = 200"
    and "iter_error r = None"
    and "list_all2
           (\<lambda>line frag. \<exists>chunk. loads line = Inr chunk \<and>
              py_get chunk (ascii ''response'') (JStr []) = Inr (JStr frag))
           (filter (\<lambda>l. l \<noteq> []) (iter_lines r)) frags"
  shows "ask_ollama_stream post loads question context_text = map JStr frags \<and>
         write_stream (ask_ollama_stream post loads question context_text) = JStr (concat frags)"
proof -
  have "stream_lines loads (iter_lines r) = (map JStr frags, None)"
    using assms(4) by (rule stream_lines_text)
  with assms(1-3) have "ask_ollama_stream post loads question context_text = map JStr frags"
    by (simp add: ask_ollama_stream_def try_body_def)
  then show ?thesis by (simp add: write_stream_text)
qed

theorem records_yield_fragments_witness:
  "ask_ollama_stream
     (\<lambda>req. Responds \<lparr>status_code = 200, response_text = [],
                        iter_lines = [ascii ''r1'', [], ascii ''r2''], iter_error = None\<rparr>)
     (stub_loads [(ascii ''r1'', JObj [(ascii ''response'', JStr (ascii ''The ''))]),
                  (ascii ''r2'', JObj [(ascii ''response'', JStr (ascii '' answer.'')),
                                       (ascii ''done'', JBool True)])])
     (ascii ''What is X?'') (ascii ''doc'')
     = [JStr (ascii ''The ''), JStr (ascii '' answer.'')] \<and>
   write_stream
     (ask_ollama_stream
        (\<lambda>req. Responds \<lparr>status_code = 200, response_text = [],
                           iter_lines = [ascii ''r1'', [], ascii ''r2''], iter_error = None\<rparr>)
        (stub_loads [(ascii ''r1'', JObj [(ascii ''response'', JStr (ascii ''The ''))]),
                     (ascii ''r2'', JObj [(ascii ''response'', JStr (ascii '' answer.'')),
                                          (ascii ''done'', JBool True)])])
        (ascii ''What is X?'') (ascii ''doc''))
     = JStr (ascii ''The '' @ ascii '' answer.'')"
proof -
  let ?r = "\<lparr>status_code = 200, response_text = [],
             iter_lines = [ascii ''r1'', [], ascii ''r2''], iter_error = None\<rparr>"
  let ?loads = "stub_loads [(ascii ''r1'', JObj [(ascii ''response'', JStr (ascii ''The ''))]),
                  (ascii ''r2'', JObj [(ascii ''response'', JStr (ascii '' answer.'')),
                                       (ascii ''done'', JBool True)])]"
  have h: "list_all2
           (\<lambda>line frag. \<exists>chunk. ?loads line = Inr chunk \<and>
              py_get chunk (ascii ''response'') (JStr []) = Inr (JStr frag))
           (filter (\<lambda>l. l \<noteq> []) (iter_lines ?r)) [ascii ''The '', ascii '' answer.'']"
    by (simp add: stub_loads_def ascii_def)
  have p: "(\<lambda>req::request. Responds ?r) (build_request (ascii ''What is X?'') (ascii ''doc''))
          = Responds ?r" by simp
  have s: "status_code ?r = 200" by simp
  have e: "iter_error ?r = None" by simp
  from records_yield_fragments
         [where post = "\<lambda>req. Responds ?r" and question = "ascii ''What is X?''"
            and context_text = "ascii ''doc''" and r = ?r and loads = ?loads
            and frags = "[ascii ''The '', ascii '' answer.'']", OF p s e h]
  have r: "ask_ollama_stream (\<lambda>req. Responds ?r) ?loads (ascii ''What is X?'') (ascii ''doc'')
             = map JStr [ascii ''The '', ascii '' answer.''] \<and>
           write_stream
             (ask_ollama_stream (\<lambda>req. Responds ?r) ?loads (ascii ''What is X?'') (ascii ''doc''))
             = JStr (concat [ascii ''The '', ascii '' answer.''])" .
  from r have a: "ask_ollama_stream (\<lambda>req. Responds ?r) ?loads (ascii ''What is X?'') (ascii ''doc'')
             = [JStr (ascii ''The ''), JStr (ascii '' answer.'')]"
    by simp
  have "concat [ascii ''The '', ascii '' answer.''] = ascii ''The '' @ ascii '' answer.''"
    by simp
  with r have b: "write_stream
             (ask_ollama_stream (\<lambda>req. Responds ?r) ?loads (ascii ''What is X?'') (ascii ''doc''))
             = JStr (ascii ''The '' @ ascii '' answer.'')"
    by metis
  from a b show ?thesis by blast
qed

section \<open>The session: properties\<close>

lemma write_stream_shape: "(\<exists>t. write_stream chunks = JStr t) \<or> (\<exists>w. write_stream chunks = JArr w)"
  by (simp add: write_stream_def split: list.splits json.splits)

lemma py_in_full_response: "\<exists>found. py_in k (write_stream chunks) = Inr found"
  using write_stream_shape [of chunks] by auto

lemma full_response_unreachable:
  assumes "post (build_request q c) = Raises e"
  shows "py_in CROSS_MARK (write_stream (ask_ollama_stream post loads q c)) = Inr True"
proof -
  obtain rest where "except_handlers e = CROSS_MARK @ rest"
    using except_handlers_marked by blast
  with assms have "write_stream (ask_ollama_stream post loads q c) = JStr (CROSS_MARK @ rest)"
    by (simp add: ask_post_raises write_stream_single)
  then show ?thesis by (simp only: py_in_marked)
qed

lemma chat_input_failed:
  assumes "authenticated s" and "session_context s \<noteq> []" and "question \<noteq> []"
    and "messages s = JArr ms"
    and "py_in CROSS_MARK
           (write_stream (ask_ollama_stream post loads question (session_context s))) = Inr True"
  shows "chat_input_handler post loads dumps question (s, fs) =
           Inr (s\<lparr>messages := JArr (ms @ [message ''user'' (JStr question)])\<rparr>, fs)"
  using assms by (simp add: chat_input_handler_def Let_def)

lemma chat_input_succeeded:
  assumes "authenticated s" and "session_context s \<noteq> []" and "question \<noteq> []"
    and "messages s = JArr ms"
    and "py_in CROSS_MARK
           (write_stream (ask_ollama_stream post loads question (session_context s))) = Inr False"
  shows "chat_input_handler post loads dumps question (s, fs) =
           Inr (s\<lparr>messages :=
                    JArr (ms @ [message ''user'' (JStr question),
                                message ''assistant''
                                  (write_stream
                                     (ask_ollama_stream post loads question (session_context s)))])\<rparr>,
                save_history dumps (current_user s)
                  (JArr (ms @ [message ''user'' (JStr question),
                               message ''assistant''
                                 (write_stream
                                    (ask_ollama_stream post loads question (session_context s)))]))
                  fs)"
  using assms by (simp add: chat_input_handler_def Let_def)

lemma endpoint_answers_fragments:
  "ask_ollama_stream endpoint_answers (stub_loads stub_records) q c
     = map JStr [ascii ''The '', ascii ''answer.'']"
  by (simp add: ask_ollama_stream_def try_body_def endpoint_answers_def stub_loads_def
        stub_records_def ascii_def)

lemma no_mark_in_answer: "10060 \<notin> set (concat [ascii ''The '', ascii ''answer.''])"
  by (simp add: ascii_def)

lemma endpoint_answers_unmarked:
  "py_in CROSS_MARK (write_stream (ask_ollama_stream endpoint_answers (stub_loads stub_records) q c))
     = Inr False"
  using no_mark_in_answer
  by (simp only: endpoint_answers_fragments write_stream_text CROSS_MARK_def py_in.simps
        str_contains_single)

text \<open>
  C2. In an authenticated session with a document context and a transcript \<open>ms\<close>, the
  handler of a submitted question appends the user message, drains the generator and
  tests the full response for the failure marker; the test always has an answer. When
  the marker is absent, it appends the assistant message with the full response and
  calls \<open>save_history\<close> once, with the transcript so extended: one write, to the
  transcript file of the current user. The user message is the dict of role \<open>user\<close>
  with the question as content, the assistant message the dict of role \<open>assistant\<close>
  with the full response as content. When the marker is
  present, the transcript ends with the user message and the file system is untouched:
  nothing was saved. That is the case whenever the request raises, so in particular when
  the endpoint cannot be reached. When the fragments are all text, the full response is
  their concatenation and the test is whether the marker occurs in it.
\<close>

theorem chat_input_appends_and_saves:
  assumes "authenticated s" and "session_context s \<noteq> []" and "question \<noteq> []"
    and "messages s = JArr ms"
  shows
    "let full_response =
           write_stream (ask_ollama_stream post loads question (session_context s));
         asked = ms @ [JObj [(ascii ''role'', JStr (ascii ''user'')), (ascii ''content'', JStr question)]];
         answered = asked @ [JObj [(ascii ''role'', JStr (ascii ''assistant'')), (ascii ''content'', full_response)]]
     in
       (\<exists>found. py_in CROSS_MARK full_response = Inr found) \<and>
       (py_in CROSS_MARK full_response = Inr False \<longrightarrow>
          chat_input_handler post loads dumps question (s, fs) =
            Inr (s\<lparr>messages := JArr answered\<rparr>,
                 save_history dumps (current_user s) (JArr answered) fs) \<and>
          journal (save_history dumps (current_user s) (JArr answered) fs) =
            journal fs @ [ascii ''history/'' @ current_user s @ ascii ''/chat.json'']) \<and>
       (py_in CROSS_MARK full_response = Inr True \<longrightarrow>
          chat_input_handler post loads dumps question (s, fs) =
            Inr (s\<lparr>messages := JArr asked\<rparr>, fs)) \<and>
       (post (build_request question (session_context s)) = Raises e \<longrightarrow>
          chat_input_handler post loads dumps question (s, fs) =
            Inr (s\<lparr>messages := JArr asked\<rparr>, fs)) \<and>
       (ask_ollama_stream post loads question (session_context s) = map JStr frags \<longrightarrow>
          full_response = JStr (concat frags) \<and>
          py_in CROSS_MARK full_response = Inr (10060 \<in> set (concat frags)))"
proof -
  let ?full = "write_stream (ask_ollama_stream post loads question (session_context s))"
  have 1: "\<exists>found. py_in CROSS_MARK ?full = Inr found"
    by (rule py_in_full_response)
  have 2: "py_in CROSS_MARK ?full = Inr False \<longrightarrow>
          chat_input_handler post loads dumps question (s, fs) =
            Inr (s\<lparr>messages := JArr ((ms @ [JObj [(ascii ''role'', JStr (ascii ''user'')), (ascii ''content'', JStr question)]])
                                       @ [JObj [(ascii ''role'', JStr (ascii ''assistant'')), (ascii ''content'', ?full)]])\<rparr>,
                 save_history dumps (current_user s)
                   (JArr ((ms @ [JObj [(ascii ''role'', JStr (ascii ''user'')), (ascii ''content'', JStr question)]])
                          @ [JObj [(ascii ''role'', JStr (ascii ''assistant'')), (ascii ''content'', ?full)]])) fs)"
    using chat_input_succeeded [OF assms, of post loads dumps fs] by (simp add: message_def)
  have 3: "py_in CROSS_MARK ?full = Inr True \<longrightarrow>
          chat_input_handler post loads dumps question (s, fs) =
            Inr (s\<lparr>messages := JArr (ms @ [JObj [(ascii ''role'', JStr (ascii ''user'')), (ascii ''content'', JStr question)]])\<rparr>, fs)"
    using chat_input_failed [OF assms, of post loads dumps fs] by (simp add: message_def)
  have 4: "post (build_request question (session_context s)) = Raises e \<longrightarrow>
          chat_input_handler post loads dumps question (s, fs) =
            Inr (s\<lparr>messages := JArr (ms @ [JObj [(ascii ''role'', JStr (ascii ''user'')), (ascii ''content'', JStr question)]])\<rparr>, fs)"
    using chat_input_failed [OF assms, of post loads dumps fs]
      full_response_unreachable [of post question "session_context s" e loads]
    by (simp add: message_def)
  have 5: "ask_ollama_stream post loads question (session_context s) = map JStr frags \<longrightarrow>
          ?full = JStr (concat frags) \<and>
          py_in CROSS_MARK ?full = Inr (10060 \<in> set (concat frags))"
    by (simp add: write_stream_text CROSS_MARK_def str_contains_single)
  from 1 2 3 4 5 show ?thesis
    unfolding Let_def by (simp only: journal_save_history history_path_literal) blast
qed


theorem chat_input_appends_and_saves_witness:
  "chat_input_handler endpoint_answers (stub_loads stub_records) (stub_dumps [])
     (ascii ''What is X?'') (alice_session, empty_fs)
     = Inr (alice_session
              \<lparr>messages := JArr [JObj [(ascii ''role'', JStr (ascii ''user'')), (ascii ''content'', JStr (ascii ''What is X?''))],
                                  JObj [(ascii ''role'', JStr (ascii ''assistant'')), (ascii ''content'', JStr (ascii ''The '' @ ascii ''answer.''))]]\<rparr>,
            save_history (stub_dumps []) (ascii ''a@x.com'')
              (JArr [JObj [(ascii ''role'', JStr (ascii ''user'')), (ascii ''content'', JStr (ascii ''What is X?''))],
                     JObj [(ascii ''role'', JStr (ascii ''assistant'')), (ascii ''content'', JStr (ascii ''The '' @ ascii ''answer.''))]])
              empty_fs) \<and>
   chat_input_handler endpoint_down (stub_loads stub_records) (stub_dumps [])
     (ascii ''What is X?'') (alice_session, empty_fs)
     = Inr (alice_session\<lparr>messages := JArr [JObj [(ascii ''role'', JStr (ascii ''user'')), (ascii ''content'', JStr (ascii ''What is X?''))]]\<rparr>,
            empty_fs)"
proof -
  let ?q = "ascii ''What is X?''"
  let ?loads = "stub_loads stub_records"
  have a: "authenticated alice_session" by (simp add: alice_session_def)
  have c: "session_context alice_session \<noteq> []" by (simp add: alice_session_def ascii_def)
  have q: "?q \<noteq> []" by (simp add: ascii_def)
  have m: "messages alice_session = JArr []" by (simp add: alice_session_def)
  have u: "current_user alice_session = ascii ''a@x.com''" by (simp add: alice_session_def)
  note ok = chat_input_appends_and_saves
    [OF a c q m, where post = endpoint_answers and loads = ?loads and dumps = "stub_dumps []"
       and fs = empty_fs and frags = "[ascii ''The '', ascii ''answer.'']"
       and e = "Exn ConnectionError (ascii ''connection refused'')", unfolded Let_def]
  note down = chat_input_appends_and_saves
    [OF a c q m, where post = endpoint_down and loads = ?loads and dumps = "stub_dumps []"
       and fs = empty_fs and e = "Exn ConnectionError (ascii ''connection refused'')",
     unfolded Let_def]
  have fr: "ask_ollama_stream endpoint_answers ?loads ?q (session_context alice_session)
              = map JStr [ascii ''The '', ascii ''answer.'']"
    by (rule endpoint_answers_fragments)
  from ok fr have full: "write_stream
           (ask_ollama_stream endpoint_answers ?loads ?q (session_context alice_session))
           = JStr (concat [ascii ''The '', ascii ''answer.''])"
    by blast
  from ok fr have "py_in CROSS_MARK
         (write_stream (ask_ollama_stream endpoint_answers ?loads ?q (session_context alice_session)))
         = Inr (10060 \<in> set (concat [ascii ''The '', ascii ''answer.'']))"
    by blast
  with no_mark_in_answer have "py_in CROSS_MARK
         (write_stream (ask_ollama_stream endpoint_answers ?loads ?q (session_context alice_session)))
         = Inr False"
    by (simp only: )
  with ok have 1: "chat_input_handler endpoint_answers ?loads (stub_dumps []) ?q
                     (alice_session, empty_fs)
     = Inr (alice_session
              \<lparr>messages := JArr (([] @ [JObj [(ascii ''role'', JStr (ascii ''user'')), (ascii ''content'', JStr ?q)]]) @
                 [JObj [(ascii ''role'', JStr (ascii ''assistant'')), (ascii ''content'', write_stream (ask_ollama_stream endpoint_answers ?loads ?q (session_context alice_session)))]])\<rparr>,
            save_history (stub_dumps []) (current_user alice_session)
              (JArr (([] @ [JObj [(ascii ''role'', JStr (ascii ''user'')), (ascii ''content'', JStr ?q)]]) @
                 [JObj [(ascii ''role'', JStr (ascii ''assistant'')), (ascii ''content'', write_stream (ask_ollama_stream endpoint_answers ?loads ?q (session_context alice_session)))]]))
              empty_fs)"
    by blast
  have "endpoint_down (build_request ?q (session_context alice_session))
          = Raises (Exn ConnectionError (ascii ''connection refused''))"
    by (simp add: endpoint_down_def)
  with down have 2: "chat_input_handler endpoint_down ?loads (stub_dumps []) ?q
                       (alice_session, empty_fs)
     = Inr (alice_session\<lparr>messages := JArr ([] @ [JObj [(ascii ''role'', JStr (ascii ''user'')), (ascii ''content'', JStr ?q)]])\<rparr>, empty_fs)"
    by blast
  from 1 2 full u show ?thesis by simp
qed

text \<open>
  C9, as stated: after a failed exchange, every later save, the one of the clear button
  included, records a user question without a reply. It fails for the clear button:
  after a failed first question, the button empties the transcript before it saves, and
  the stored record is the empty list.
\<close>

theorem clear_drops_unanswered_question_counterexample:
  "chat_input_handler endpoint_down (stub_loads [(ascii ''[]'', JArr [])])
     (stub_dumps [(JArr [], ascii ''[]'')]) (ascii ''What is X?'') (alice_session, empty_fs)
     = Inr (alice_session\<lparr>messages := JArr [message ''user'' (JStr (ascii ''What is X?''))]\<rparr>,
            empty_fs) \<and>
   clear_handler (stub_dumps [(JArr [], ascii ''[]'')])
     (alice_session\<lparr>messages := JArr [message ''user'' (JStr (ascii ''What is X?''))]\<rparr>, empty_fs)
     = (alice_session\<lparr>messages := JArr []\<rparr>,
        save_history (stub_dumps [(JArr [], ascii ''[]'')]) (ascii ''a@x.com'') (JArr []) empty_fs) \<and>
   files (save_history (stub_dumps [(JArr [], ascii ''[]'')]) (ascii ''a@x.com'') (JArr []) empty_fs)
     (history_path (ascii ''a@x.com'')) = Some (ascii ''[]'') \<and>
   load_history (stub_loads [(ascii ''[]'', JArr [])])
     (save_history (stub_dumps [(JArr [], ascii ''[]'')]) (ascii ''a@x.com'') (JArr []) empty_fs)
     (ascii ''a@x.com'') = Inr (JArr [])"
proof -
  let ?q = "ascii ''What is X?''"
  let ?loads = "stub_loads [(ascii ''[]'', JArr [])]"
  let ?dumps = "stub_dumps [(JArr [], ascii ''[]'')]"
  have a: "authenticated alice_session" by (simp add: alice_session_def)
  have c: "session_context alice_session \<noteq> []" by (simp add: alice_session_def ascii_def)
  have q: "?q \<noteq> []" by (simp add: ascii_def)
  have m: "messages alice_session = JArr []" by (simp add: alice_session_def)
  have "endpoint_down (build_request ?q (session_context alice_session))
          = Raises (Exn ConnectionError (ascii ''connection refused''))"
    by (simp add: endpoint_down_def)
  then have "py_in CROSS_MARK
      (write_stream (ask_ollama_stream endpoint_down ?loads ?q (session_context alice_session)))
      = Inr True"
    by (rule full_response_unreachable)
  from chat_input_failed [OF a c q m this, of ?dumps empty_fs]
  have 1: "chat_input_handler endpoint_down ?loads ?dumps ?q (alice_session, empty_fs)
     = Inr (alice_session\<lparr>messages := JArr [message ''user'' (JStr ?q)]\<rparr>, empty_fs)"
    by simp
  have 2: "clear_handler ?dumps
     (alice_session\<lparr>messages := JArr [message ''user'' (JStr ?q)]\<rparr>, empty_fs)
     = (alice_session\<lparr>messages := JArr []\<rparr>,
        save_history ?dumps (ascii ''a@x.com'') (JArr []) empty_fs)"
    by (simp add: clear_handler_def alice_session_def)
  have 3: "files (save_history ?dumps (ascii ''a@x.com'') (JArr []) empty_fs)
     (history_path (ascii ''a@x.com'')) = Some (ascii ''[]'')"
    by (simp add: files_save_history stub_dumps_def)
  have 4: "load_history ?loads (save_history ?dumps (ascii ''a@x.com'') (JArr []) empty_fs)
     (ascii ''a@x.com'') = Inr (JArr [])"
    by (simp add: load_history_def path_exists_def open_read_def files_save_history stub_dumps_def stub_loads_def)
  from 1 2 3 4 show ?thesis by blast
qed

text \<open>
  C9, amended. A failed exchange leaves the user message at the end of the transcript in
  memory and writes nothing. A logout after it stores the transcript with that message
  as its last entry; the next successful exchange stores the transcript with that
  message followed by the next question and its answer. The clear button discards the
  message with the rest of the transcript and stores the empty list.
\<close>

theorem failed_exchange_leaves_question:
  assumes "authenticated s" and "session_context s \<noteq> []" and "question \<noteq> []"
    and "messages s = JArr ms"
    and "py_in CROSS_MARK
           (write_stream (ask_ollama_stream post loads question (session_context s))) = Inr True"
  shows
    "let asked = ms @ [message ''user'' (JStr question)];
         s1 = s\<lparr>messages := JArr asked\<rparr>
     in
       chat_input_handler post loads dumps question (s, fs) = Inr (s1, fs) \<and>
       logout_handler dumps (s1, fs) =
         (initial_session, save_history dumps (current_user s) (JArr asked) fs) \<and>
       files (snd (logout_handler dumps (s1, fs))) (history_path (current_user s)) =
         Some (dumps (JArr asked)) \<and>
       (next_question \<noteq> [] \<and>
        py_in CROSS_MARK
          (write_stream (ask_ollama_stream next_post loads next_question (session_context s))) = Inr False
        \<longrightarrow>
          (let answered = asked @ [message ''user'' (JStr next_question),
                                   message ''assistant''
                                     (write_stream
                                        (ask_ollama_stream next_post loads next_question
                                           (session_context s)))]
           in chat_input_handler next_post loads dumps next_question (s1, fs) =
                Inr (s1\<lparr>messages := JArr answered\<rparr>,
                     save_history dumps (current_user s) (JArr answered) fs) \<and>
              files (save_history dumps (current_user s) (JArr answered) fs)
                (history_path (current_user s)) = Some (dumps (JArr answered)))) \<and>
       clear_handler dumps (s1, fs) =
         (s1\<lparr>messages := JArr []\<rparr>, save_history dumps (current_user s) (JArr []) fs) \<and>
       files (snd (clear_handler dumps (s1, fs))) (history_path (current_user s)) =
         Some (dumps (JArr []))"
proof -
  let ?asked = "ms @ [message ''user'' (JStr question)]"
  let ?s1 = "s\<lparr>messages := JArr ?asked\<rparr>"
  have 1: "chat_input_handler post loads dumps question (s, fs) = Inr (?s1, fs)"
    using assms by (rule chat_input_failed)
  have 2: "logout_handler dumps (?s1, fs) =
         (initial_session, save_history dumps (current_user s) (JArr ?asked) fs)"
    using assms(1) by (simp add: logout_handler_def)
  have 3: "files (snd (logout_handler dumps (?s1, fs))) (history_path (current_user s)) =
         Some (dumps (JArr ?asked))"
    by (simp add: 2 files_save_history)
  have 5: "clear_handler dumps (?s1, fs) =
         (?s1\<lparr>messages := JArr []\<rparr>, save_history dumps (current_user s) (JArr []) fs)"
    using assms(1) by (simp add: clear_handler_def)
  have 6: "files (snd (clear_handler dumps (?s1, fs))) (history_path (current_user s)) =
         Some (dumps (JArr []))"
    by (simp add: 5 files_save_history)
  have 4: "next_question \<noteq> [] \<and>
        py_in CROSS_MARK
          (write_stream (ask_ollama_stream next_post loads next_question (session_context s))) = Inr False
        \<longrightarrow>
          (let answered = ?asked @ [message ''user'' (JStr next_question),
                                   message ''assistant''
                                     (write_stream
                                        (ask_ollama_stream next_post loads next_question
                                           (session_context s)))]
           in chat_input_handler next_post loads dumps next_question (?s1, fs) =
                Inr (?s1\<lparr>messages := JArr answered\<rparr>,
                     save_history dumps (current_user s) (JArr answered) fs) \<and>
              files (save_history dumps (current_user s) (JArr answered) fs)
                (history_path (current_user s)) = Some (dumps (JArr answered)))"
  proof
    assume h: "next_question \<noteq> [] \<and>
        py_in CROSS_MARK
          (write_stream (ask_ollama_stream next_post loads next_question (session_context s))) = Inr False"
    have a1: "authenticated ?s1" using assms(1) by simp
    have c1: "session_context ?s1 \<noteq> []" using assms(2) by simp
    have m1: "messages ?s1 = JArr ?asked" by simp
    have p1: "py_in CROSS_MARK
          (write_stream (ask_ollama_stream next_post loads next_question (session_context ?s1))) = Inr False"
      using h by simp
    from h have q2: "next_question \<noteq> []" by blast
    from chat_input_succeeded [OF a1 c1 q2 m1 p1, of dumps fs]
    show "let answered = ?asked @ [message ''user'' (JStr next_question),
                                   message ''assistant''
                                     (write_stream
                                        (ask_ollama_stream next_post loads next_question
                                           (session_context s)))]
           in chat_input_handler next_post loads dumps next_question (?s1, fs) =
                Inr (?s1\<lparr>messages := JArr answered\<rparr>,
                     save_history dumps (current_user s) (JArr answered) fs) \<and>
              files (save_history dumps (current_user s) (JArr answered) fs)
                (history_path (current_user s)) = Some (dumps (JArr answered))"
      by (simp add: Let_def files_save_history)
  qed
  from 1 2 3 4 5 6 show ?thesis unfolding Let_def by blast
qed


theorem failed_exchange_leaves_question_witness:
  "chat_input_handler endpoint_down (stub_loads stub_records) (stub_dumps [])
     (ascii ''What is X?'') (alice_session, empty_fs)
     = Inr (alice_session\<lparr>messages := JArr [message ''user'' (JStr (ascii ''What is X?''))]\<rparr>,
            empty_fs) \<and>
   logout_handler (stub_dumps [])
     (alice_session\<lparr>messages := JArr [message ''user'' (JStr (ascii ''What is X?''))]\<rparr>, empty_fs)
     = (initial_session,
        save_history (stub_dumps []) (ascii ''a@x.com'')
          (JArr [message ''user'' (JStr (ascii ''What is X?''))]) empty_fs) \<and>
   chat_input_handler endpoint_answers (stub_loads stub_records) (stub_dumps [])
     (ascii ''And Y?'')
     (alice_session\<lparr>messages := JArr [message ''user'' (JStr (ascii ''What is X?''))]\<rparr>, empty_fs)
     = Inr (alice_session
              \<lparr>messages := JArr [message ''user'' (JStr (ascii ''What is X?'')),
                                  message ''user'' (JStr (ascii ''And Y?'')),
                                  message ''assistant'' (JStr (ascii ''The '' @ ascii ''answer.''))]\<rparr>,
            save_history (stub_dumps []) (ascii ''a@x.com'')
              (JArr [message ''user'' (JStr (ascii ''What is X?'')),
                     message ''user'' (JStr (ascii ''And Y?'')),
                     message ''assistant'' (JStr (ascii ''The '' @ ascii ''answer.''))])
              empty_fs) \<and>
   clear_handler (stub_dumps [])
     (alice_session\<lparr>messages := JArr [message ''user'' (JStr (ascii ''What is X?''))]\<rparr>, empty_fs)
     = (alice_session\<lparr>messages := JArr []\<rparr>,
        save_history (stub_dumps []) (ascii ''a@x.com'') (JArr []) empty_fs)"
proof -
  let ?q = "ascii ''What is X?''"
  let ?q2 = "ascii ''And Y?''"
  let ?loads = "stub_loads stub_records"
  have a: "authenticated alice_session" by (simp add: alice_session_def)
  have c: "session_context alice_session \<noteq> []" by (simp add: alice_session_def ascii_def)
  have q: "?q \<noteq> []" by (simp add: ascii_def)
  have q2: "?q2 \<noteq> []" by (simp add: ascii_def)
  have m: "messages alice_session = JArr []" by (simp add: alice_session_def)
  have u: "current_user alice_session = ascii ''a@x.com''" by (simp add: alice_session_def)
  have "endpoint_down (build_request ?q (session_context alice_session))
          = Raises (Exn ConnectionError (ascii ''connection refused''))"
    by (simp add: endpoint_down_def)
  then have f: "py_in CROSS_MARK
      (write_stream (ask_ollama_stream endpoint_down ?loads ?q (session_context alice_session)))
      = Inr True"
    by (rule full_response_unreachable)
  have ok: "py_in CROSS_MARK
      (write_stream (ask_ollama_stream endpoint_answers ?loads ?q2 (session_context alice_session)))
      = Inr False"
    by (rule endpoint_answers_unmarked)
  have full: "write_stream
      (ask_ollama_stream endpoint_answers ?loads ?q2 (session_context alice_session))
      = JStr (ascii ''The '' @ ascii ''answer.'')"
    using write_stream_text [of "[ascii ''The '', ascii ''answer.'']"]
    by (simp add: endpoint_answers_fragments)
  note t = failed_exchange_leaves_question
    [OF a c q m f, where dumps = "stub_dumps []" and fs = empty_fs and next_question = ?q2
       and next_post = endpoint_answers, unfolded Let_def]
  from t have 1: "chat_input_handler endpoint_down ?loads (stub_dumps []) ?q
                    (alice_session, empty_fs)
     = Inr (alice_session\<lparr>messages := JArr ([] @ [message ''user'' (JStr ?q)])\<rparr>, empty_fs)"
    by blast
  from t have 2: "logout_handler (stub_dumps [])
     (alice_session\<lparr>messages := JArr ([] @ [message ''user'' (JStr ?q)])\<rparr>, empty_fs)
     = (initial_session,
        save_history (stub_dumps []) (current_user alice_session)
          (JArr ([] @ [message ''user'' (JStr ?q)])) empty_fs)"
    by blast
  from t q2 ok have 3: "chat_input_handler endpoint_answers ?loads (stub_dumps []) ?q2
     (alice_session\<lparr>messages := JArr ([] @ [message ''user'' (JStr ?q)])\<rparr>, empty_fs)
     = Inr (alice_session\<lparr>messages := JArr ([] @ [message ''user'' (JStr ?q)])\<rparr>
              \<lparr>messages := JArr (([] @ [message ''user'' (JStr ?q)]) @
                  [message ''user'' (JStr ?q2),
                   message ''assistant''
                     (write_stream (ask_ollama_stream endpoint_answers ?loads ?q2
                                      (session_context alice_session)))])\<rparr>,
            save_history (stub_dumps []) (current_user alice_session)
              (JArr (([] @ [message ''user'' (JStr ?q)]) @
                  [message ''user'' (JStr ?q2),
                   message ''assistant''
                     (write_stream (ask_ollama_stream endpoint_answers ?loads ?q2
                                      (session_context alice_session)))]))
              empty_fs)"
    by blast
  from t have 4: "clear_handler (stub_dumps [])
     (alice_session\<lparr>messages := JArr ([] @ [message ''user'' (JStr ?q)])\<rparr>, empty_fs)
     = (alice_session\<lparr>messages := JArr ([] @ [message ''user'' (JStr ?q)])\<rparr>
          \<lparr>messages := JArr []\<rparr>,
        save_history (stub_dumps []) (current_user alice_session) (JArr []) empty_fs)"
    by blast
  from 1 2 3 4 full u show ?thesis by simp
qed

end
